theory Spec2Isabelle
  imports Main "HOL-Library.Sublist"
begin

section \<open>Python strings\<close>

text \<open>
  A Python \<open>str\<close> is modelled as a \<open>string\<close> whose characters are the code points
  below 256.  \<open>str.isspace\<close> holds on that range for the ASCII white space
  (9 to 13 and 32), the separators 28 to 31, NEL (0x85) and the no-break space (0xA0).
\<close>

definition py_isspace :: "char \<Rightarrow> bool" where
  "py_isspace c = (of_char c \<in> {9, 10, 11, 12, 13, 28, 29, 30, 31, 32, 133, 160 :: nat})"

text \<open>\<open>s.strip()\<close>: white space removed at both ends.\<close>

definition strip :: "string \<Rightarrow> string" where
  "strip s = rev (dropWhile py_isspace (rev (dropWhile py_isspace s)))"

text \<open>\<open>sep.join(xs)\<close>.\<close>

fun join :: "string \<Rightarrow> string list \<Rightarrow> string" where
  "join sep [] = []"
| "join sep [x] = x"
| "join sep (x # y # ys) = x @ sep @ join sep (y # ys)"

section \<open>The remote representation\<close>

text \<open>
  What the Kubernetes client returns is decoded JSON: dictionaries, lists, strings,
  numbers, booleans and \<open>None\<close>.  A dictionary is the list of its items in order;
  \<open>d.get(k)\<close> is \<open>map_of d k\<close>, and \<open>d.get(k, dflt)\<close> is \<open>py_get d k dflt\<close>.
\<close>

datatype json =
    JNull
  | JBool bool
  | JInt int
  | JStr string
  | JList "json list"
  | JObj "(string \<times> json) list"

type_synonym dict = "(string \<times> json) list"

definition py_get :: "dict \<Rightarrow> string \<Rightarrow> json \<Rightarrow> json" where
  "py_get d k dflt = (case map_of d k of None \<Rightarrow> dflt | Some v \<Rightarrow> v)"

text \<open>Truthiness, as \<open>if x:\<close> tests it.\<close>

fun truthy :: "json \<Rightarrow> bool" where
  "truthy JNull = False"
| "truthy (JBool b) = b"
| "truthy (JInt n) = (n \<noteq> 0)"
| "truthy (JStr s) = (s \<noteq> [])"
| "truthy (JList xs) = (xs \<noteq> [])"
| "truthy (JObj kvs) = (kvs \<noteq> [])"

text \<open>
  Calling a method that only some types have: \<open>x.get\<close>, \<open>x.items\<close> and \<open>x.replace\<close>
  raise \<open>AttributeError\<close> with this text on a value of another type.
\<close>

fun type_name :: "json \<Rightarrow> string" where
  "type_name JNull = ''NoneType''"
| "type_name (JBool b) = ''bool''"
| "type_name (JInt n) = ''int''"
| "type_name (JStr s) = ''str''"
| "type_name (JList xs) = ''list''"
| "type_name (JObj kvs) = ''dict''"

definition attribute_error :: "json \<Rightarrow> string \<Rightarrow> string" where
  "attribute_error v attr =
     [CHR 0x27] @ type_name v @ [CHR 0x27] @ '' object has no attribute '' @ [CHR 0x27] @ attr @ [CHR 0x27]"

text \<open>\<open>s.replace("Z", "+00:00")\<close>: every occurrence of the one character is replaced.\<close>

definition replace_Z :: "string \<Rightarrow> string" where
  "replace_Z s = concat (map (\<lambda>c. if c = CHR ''Z'' then ''+00:00'' else [c]) s)"

text \<open>
  What a call of the Kubernetes client raises: an \<open>ApiException\<close> with its HTTP status
  and reason, or an exception of any other class, kept by its \<open>str(e)\<close>.
\<close>

datatype api_failure =
    ApiException int string
  | OtherException string

text \<open>Decimal notation, for \<open>e.status\<close> inside an f-string.\<close>

definition digit :: "nat \<Rightarrow> char" where
  "digit d = char_of (of_char (CHR ''0'') + d :: nat)"

function decimal :: "nat \<Rightarrow> string" where
  "decimal n = (if n div 10 = 0 then [digit n] else decimal (n div 10) @ [digit (n mod 10)])"
  by pat_completeness auto
termination
  by (relation "measure (\<lambda>n. n)") auto

definition format_int :: "int \<Rightarrow> string" where
  "format_int i = (if 0 \<le> i then decimal (nat i) else CHR ''-'' # decimal (nat (- i)))"

text \<open>
  \<open>handle_kubernetes_api_exception(e, operation, resource_type)\<close>, by the \<open>message\<close> of
  the exception object it returns (its callers read nothing else).  The two
  \<open>PermissionError\<close> cases and the \<open>ResourceNotFoundError\<close> case build their message from
  their constructor arguments; \<open>resource_type\<close> is \<open>None\<close> or a string.
\<close>

definition permission_error_message :: "string \<Rightarrow> string option \<Rightarrow> string" where
  "permission_error_message operation resource =
     ''Insufficient permissions to '' @ operation @
     (case resource of None \<Rightarrow> [] | Some r \<Rightarrow> if r = [] then [] else '' '' @ r)"

definition handle_kubernetes_api_exception :: "api_failure \<Rightarrow> string \<Rightarrow> string option \<Rightarrow> string" where
  "handle_kubernetes_api_exception e operation resource_type =
     (case e of
        ApiException status reason \<Rightarrow>
          if status = 401 then permission_error_message ''authenticate'' (Some ''cluster'')
          else if status = 403 then permission_error_message operation resource_type
          else if status = 404 then
            (case resource_type of
               Some r \<Rightarrow>
                 if r \<noteq> [] then r @ '' '' @ [CHR 0x27] @ ''unknown'' @ [CHR 0x27] @ '' not found''
                 else ''Resource not found during '' @ operation
             | None \<Rightarrow> ''Resource not found during '' @ operation)
          else if status = 409 then
            ''Resource conflict during '' @ operation @ '' - resource may already exist''
          else if status = 422 then ''Invalid resource specification: '' @ reason
          else if status \<ge> 500 then
            ''Kubernetes API server error during '' @ operation @ '': '' @ reason
          else ''API error during '' @ operation @ '': '' @ reason @
               '' (status: '' @ format_int status @ '')''
      | OtherException msg \<Rightarrow> ''Unexpected error during '' @ operation @ '': '' @ msg)"

section \<open>Errors\<close>

text \<open>
  The exception classes of \<open>exceptions.py\<close> that the modelled functions raise, each with
  what it is constructed from, and the exceptions of Python and of the rich library that
  leave a function as they are.  A raise is the left injection of a sum.
\<close>

datatype error =
    ValidationError string
  | WorkflowNotFoundError json string
  | KubernetesAPIError string
  | AttributeError string
  | TypeError string
  | NotRenderableError string
  | MarkupError string

section \<open>Validator.validate_parameters\<close>

text \<open>
  The loop over \<open>required\<close>, with its two accumulators \<open>missing_params\<close> and
  \<open>empty_params\<close>.  \<open>provided\<close> is a \<open>Dict[str, str]\<close>: a value is empty when it is
  falsy (the empty string) or blank after \<open>strip\<close>.
\<close>

fun validate_loop ::
  "string list \<Rightarrow> (string \<rightharpoonup> string) \<Rightarrow> string list \<Rightarrow> string list \<Rightarrow> string list \<times> string list"
where
  "validate_loop [] provided missing_params empty_params = (missing_params, empty_params)"
| "validate_loop (param # rest) provided missing_params empty_params =
     (case provided param of
        None \<Rightarrow> validate_loop rest provided (missing_params @ [param]) empty_params
      | Some v \<Rightarrow>
          if v = [] \<or> strip v = []
          then validate_loop rest provided missing_params (empty_params @ [param])
          else validate_loop rest provided missing_params empty_params)"

definition error_parts :: "string list \<Rightarrow> string list \<Rightarrow> string list" where
  "error_parts missing_params empty_params =
     (if missing_params \<noteq> [] then [''Missing required parameters: '' @ join '', '' missing_params] else []) @
     (if empty_params \<noteq> [] then [''Empty required parameters: '' @ join '', '' empty_params] else [])"

definition validate_parameters :: "string list \<Rightarrow> (string \<rightharpoonup> string) \<Rightarrow> error + bool" where
  "validate_parameters required provided =
     (case validate_loop required provided [] [] of
        (missing_params, empty_params) \<Rightarrow>
          if missing_params \<noteq> [] \<or> empty_params \<noteq> []
          then Inl (ValidationError (join ''. '' (error_parts missing_params empty_params)))
          else Inr True)"

text \<open>The names the claim speaks of: absent from the map, and present but blank.\<close>

definition is_missing :: "(string \<rightharpoonup> string) \<Rightarrow> string \<Rightarrow> bool" where
  "is_missing provided p = (provided p = None)"

definition is_blank :: "(string \<rightharpoonup> string) \<Rightarrow> string \<Rightarrow> bool" where
  "is_blank provided p = (case provided p of None \<Rightarrow> False | Some v \<Rightarrow> strip v = [])"

section \<open>WorkflowClient.get_workflow_status\<close>

text \<open>
  The two dataclasses.  A dataclass does not check its annotations, so a field holds
  whatever \<open>get\<close> returned: a JSON value.  The time stamps are \<open>datetime\<close> objects or
  \<open>None\<close>; \<open>datetime.fromisoformat\<close> is a parameter, \<open>None\<close> where it raises \<open>ValueError\<close>.
\<close>

record 'dt WorkflowNode =
  node_name :: json
  display_name :: json
  node_type :: json
  node_phase :: json
  node_message :: json
  node_started_at :: "'dt option"
  node_finished_at :: "'dt option"

record 'dt WorkflowStatus =
  name :: json
  namespace :: json
  phase :: json
  started_at :: "'dt option"
  finished_at :: "'dt option"
  progress :: json
  message :: json
  nodes :: "'dt WorkflowNode list"

text \<open>
  The block that parses one time stamp: the variable starts as \<open>None\<close>; when
  \<open>d.get(key)\<close> is truthy, \<open>datetime.fromisoformat(d[key].replace("Z", "+00:00"))\<close> is
  tried, and \<open>ValueError\<close> and \<open>AttributeError\<close> are caught and passed over.  A truthy
  value that is not a string has no \<open>replace\<close>: that \<open>AttributeError\<close> is caught too.
\<close>

definition parse_timestamp :: "(string \<Rightarrow> 'dt option) \<Rightarrow> dict \<Rightarrow> string \<Rightarrow> 'dt option" where
  "parse_timestamp fromisoformat d key =
     (case map_of d key of
        None \<Rightarrow> None
      | Some v \<Rightarrow>
          if truthy v
          then (case v of JStr s \<Rightarrow> fromisoformat (replace_Z s) | _ \<Rightarrow> None)
          else None)"

text \<open>
  One iteration of the loop over \<open>status.get("nodes", {}).items()\<close>.  The result is the
  node appended, or the text of the \<open>AttributeError\<close> that \<open>node_data.get\<close> raises when
  \<open>node_data\<close> is not a dictionary.
\<close>

definition decode_node ::
  "(string \<Rightarrow> 'dt option) \<Rightarrow> string \<times> json \<Rightarrow> string + 'dt WorkflowNode"
where
  "decode_node fromisoformat item =
     (case item of (node_id, node_data) \<Rightarrow>
        (case node_data of
           JObj nd \<Rightarrow>
             Inr \<lparr> node_name = py_get nd ''name'' (JStr node_id),
                   display_name = py_get nd ''displayName'' (py_get nd ''name'' (JStr node_id)),
                   node_type = py_get nd ''type'' (JStr ''Unknown''),
                   node_phase = py_get nd ''phase'' (JStr ''Unknown''),
                   node_message = py_get nd ''message'' (JStr []),
                   node_started_at = parse_timestamp fromisoformat nd ''startedAt'',
                   node_finished_at = parse_timestamp fromisoformat nd ''finishedAt'' \<rparr>
         | _ \<Rightarrow> Inl (attribute_error node_data ''get'')))"

fun decode_nodes ::
  "(string \<Rightarrow> 'dt option) \<Rightarrow> (string \<times> json) list \<Rightarrow> string + 'dt WorkflowNode list"
where
  "decode_nodes fromisoformat [] = Inr []"
| "decode_nodes fromisoformat (item # items) =
     (case decode_node fromisoformat item of
        Inl e \<Rightarrow> Inl e
      | Inr n \<Rightarrow>
          (case decode_nodes fromisoformat items of
             Inl e \<Rightarrow> Inl e
           | Inr ns \<Rightarrow> Inr (n # ns)))"

text \<open>
  The body of the \<open>try\<close> after the API call.  \<open>Inl\<close> is the \<open>str(e)\<close> of the exception
  that reaches \<open>except Exception\<close>: the \<open>AttributeError\<close> of \<open>status.get\<close>, of \<open>.items()\<close>, of
  \<open>node_data.get\<close> or of \<open>metadata.get\<close>, in the order the statements run.
\<close>

definition decode_workflow ::
  "(string \<Rightarrow> 'dt option) \<Rightarrow> string \<Rightarrow> string \<Rightarrow> dict \<Rightarrow> string + 'dt WorkflowStatus"
where
  "decode_workflow fromisoformat self_namespace workflow_name workflow =
     (case py_get workflow ''status'' (JObj []) of
        JObj status \<Rightarrow>
          (case py_get status ''nodes'' (JObj []) of
             JObj node_items \<Rightarrow>
               (case decode_nodes fromisoformat node_items of
                  Inl e \<Rightarrow> Inl e
                | Inr ns \<Rightarrow>
                    (case py_get workflow ''metadata'' (JObj []) of
                       JObj metadata \<Rightarrow>
                         Inr \<lparr> name = py_get metadata ''name'' (JStr workflow_name),
                               namespace = py_get metadata ''namespace'' (JStr self_namespace),
                               phase = py_get status ''phase'' (JStr ''Unknown''),
                               started_at = parse_timestamp fromisoformat status ''startedAt'',
                               finished_at = parse_timestamp fromisoformat status ''finishedAt'',
                               progress = py_get status ''progress'' (JStr ''0/0''),
                               message = py_get status ''message'' (JStr []),
                               nodes = ns \<rparr>
                     | m \<Rightarrow> Inl (attribute_error m ''get'')))
           | n \<Rightarrow> Inl (attribute_error n ''items''))
      | s \<Rightarrow> Inl (attribute_error s ''get''))"

text \<open>
  \<open>get_workflow_status\<close>.  \<open>get_object\<close> is \<open>custom_api.get_namespaced_custom_object\<close> on
  the client's group, version, namespace and plural: the workflow object, or what it
  raises.
\<close>

definition get_workflow_status ::
  "(string \<Rightarrow> 'dt option) \<Rightarrow> string \<Rightarrow> (string \<Rightarrow> api_failure + dict) \<Rightarrow> string
     \<Rightarrow> error + 'dt WorkflowStatus"
where
  "get_workflow_status fromisoformat self_namespace get_object workflow_name =
     (case get_object workflow_name of
        Inl (ApiException status reason) \<Rightarrow>
          if status = 404 then Inl (WorkflowNotFoundError (JStr workflow_name) self_namespace)
          else Inl (KubernetesAPIError (''Failed to get workflow status: '' @
                 handle_kubernetes_api_exception (ApiException status reason)
                   ''get workflow status'' (Some ''Workflow'')))
      | Inl (OtherException msg) \<Rightarrow>
          Inl (KubernetesAPIError (''Unexpected error getting workflow status: '' @ msg))
      | Inr workflow \<Rightarrow>
          (case decode_workflow fromisoformat self_namespace workflow_name workflow of
             Inl msg \<Rightarrow> Inl (KubernetesAPIError (''Unexpected error getting workflow status: '' @ msg))
           | Inr st \<Rightarrow> Inr st))"

text \<open>The five values of the phase enumeration of the specification.\<close>

definition phase_enumeration :: "json set" where
  "phase_enumeration =
     {JStr ''Pending'', JStr ''Running'', JStr ''Succeeded'', JStr ''Failed'', JStr ''Error''}"

section \<open>WorkflowClient.get_workflow_logs and stream_workflow_logs\<close>

text \<open>
  \<open>str(x)\<close> inside an f-string.  For a list or a dictionary it is Python's \<open>repr\<close>, which
  is a parameter here.
\<close>

definition py_str :: "(json \<Rightarrow> string) \<Rightarrow> json \<Rightarrow> string" where
  "py_str repr v =
     (case v of
        JNull \<Rightarrow> ''None''
      | JBool b \<Rightarrow> (if b then ''True'' else ''False'')
      | JInt i \<Rightarrow> format_int i
      | JStr s \<Rightarrow> s
      | _ \<Rightarrow> repr v)"

text \<open>
  The dictionary comprehensions that select the target nodes: every item of \<open>nodes\<close> is
  tested in order, and \<open>node_data.get\<close> raises \<open>AttributeError\<close> on the first item that
  is not a dictionary.
\<close>

fun select_nodes :: "(dict \<Rightarrow> bool) \<Rightarrow> (string \<times> json) list \<Rightarrow> string + (string \<times> dict) list" where
  "select_nodes keep [] = Inr []"
| "select_nodes keep ((node_id, node_data) # rest) =
     (case node_data of
        JObj nd \<Rightarrow>
          (case select_nodes keep rest of
             Inl e \<Rightarrow> Inl e
           | Inr sel \<Rightarrow> Inr (if keep nd then (node_id, nd) # sel else sel))
      | _ \<Rightarrow> Inl (attribute_error node_data ''get''))"

text \<open>The three conditions of the comprehensions.\<close>

definition matches_step :: "string \<Rightarrow> dict \<Rightarrow> bool" where
  "matches_step step nd =
     (map_of nd ''displayName'' = Some (JStr step) \<or> map_of nd ''name'' = Some (JStr step))"

definition is_pod :: "dict \<Rightarrow> bool" where
  "is_pod nd = (map_of nd ''type'' = Some (JStr ''Pod''))"

definition is_active_pod :: "dict \<Rightarrow> bool" where
  "is_active_pod nd =
     (map_of nd ''type'' = Some (JStr ''Pod'') \<and>
      (map_of nd ''phase'' = Some (JStr ''Running'') \<or> map_of nd ''phase'' = Some (JStr ''Pending'')))"

text \<open>
  \<open>if step: ... else: ...\<close> of \<open>get_workflow_logs\<close> and of \<open>stream_workflow_logs\<close>;
  \<open>step\<close> is \<open>None\<close> or a string, and the empty string is falsy.
\<close>

definition log_targets :: "string option \<Rightarrow> (string \<times> json) list \<Rightarrow> string + (string \<times> dict) list" where
  "log_targets step node_items =
     (case step of
        Some s \<Rightarrow>
          if s \<noteq> [] then select_nodes (matches_step s) node_items
          else select_nodes is_pod node_items
      | None \<Rightarrow> select_nodes is_pod node_items)"

definition stream_targets :: "string option \<Rightarrow> (string \<times> json) list \<Rightarrow> string + (string \<times> dict) list" where
  "stream_targets step node_items =
     (case step of
        Some s \<Rightarrow>
          if s \<noteq> [] then select_nodes (matches_step s) node_items
          else select_nodes is_active_pod node_items
      | None \<Rightarrow> select_nodes is_active_pod node_items)"

text \<open>\<open>pod_name\<close> and \<open>display_name\<close> of a target node.\<close>

definition pod_name_of :: "string \<times> dict \<Rightarrow> json" where
  "pod_name_of item = (case item of (node_id, nd) \<Rightarrow> py_get nd ''id'' (JStr node_id))"

definition display_name_of :: "string \<times> dict \<Rightarrow> json" where
  "display_name_of item =
     (case item of (node_id, nd) \<Rightarrow>
        py_get nd ''displayName'' (py_get nd ''name'' (pod_name_of (node_id, nd))))"

text \<open>
  The loop that retrieves the logs, with its accumulator \<open>logs\<close>.  \<open>read_pod_log\<close> is
  \<open>core_api.read_namespaced_pod_log\<close> on the client's namespace and the container
  \<open>main\<close>.  The inner handler catches \<open>ApiException\<close> only: any other exception leaves
  the loop, and \<open>Inl\<close> is its \<open>str(e)\<close>.
\<close>

fun retrieve_logs ::
  "(json \<Rightarrow> string) \<Rightarrow> (json \<Rightarrow> api_failure + string) \<Rightarrow> (string \<times> dict) list \<Rightarrow> string list
     \<Rightarrow> string + string list"
where
  "retrieve_logs repr read_pod_log [] logs = Inr logs"
| "retrieve_logs repr read_pod_log (item # items) logs =
     (case read_pod_log (pod_name_of item) of
        Inr pod_logs \<Rightarrow>
          retrieve_logs repr read_pod_log items
            (logs @ [''=== Logs from step: '' @ py_str repr (display_name_of item) @ '' ==='',
                     pod_logs, []])
      | Inl (ApiException status reason) \<Rightarrow>
          retrieve_logs repr read_pod_log items
            (logs @
              [if status = 404
               then ''=== Step '' @ py_str repr (display_name_of item) @
                    '': Pod not found or not started yet ===''
               else ''=== Step '' @ py_str repr (display_name_of item) @
                    '': Failed to retrieve logs: '' @ reason @ '' ==='',
               []])
      | Inl (OtherException msg) \<Rightarrow> Inl msg)"

text \<open>The body of the \<open>try\<close> of \<open>get_workflow_logs\<close> after the API call.\<close>

definition collect_logs ::
  "(json \<Rightarrow> string) \<Rightarrow> (json \<Rightarrow> api_failure + string) \<Rightarrow> string option \<Rightarrow> dict \<Rightarrow> string + string"
where
  "collect_logs repr read_pod_log step workflow =
     (case py_get workflow ''status'' (JObj []) of
        JObj status \<Rightarrow>
          (case py_get status ''nodes'' (JObj []) of
             JObj node_items \<Rightarrow>
               (case log_targets step node_items of
                  Inl e \<Rightarrow> Inl e
                | Inr target_nodes \<Rightarrow>
                    (case retrieve_logs repr read_pod_log target_nodes [] of
                       Inl e \<Rightarrow> Inl e
                     | Inr logs \<Rightarrow>
                         Inr (if logs \<noteq> [] then join ''\<newline>'' logs else ''No logs available'')))
           | n \<Rightarrow> Inl (attribute_error n ''items''))
      | s \<Rightarrow> Inl (attribute_error s ''get''))"

definition get_workflow_logs ::
  "(json \<Rightarrow> string) \<Rightarrow> string \<Rightarrow> (string \<Rightarrow> api_failure + dict) \<Rightarrow> (json \<Rightarrow> api_failure + string)
     \<Rightarrow> string \<Rightarrow> string option \<Rightarrow> error + string"
where
  "get_workflow_logs repr self_namespace get_object read_pod_log workflow_name step =
     (case get_object workflow_name of
        Inl (ApiException status reason) \<Rightarrow>
          if status = 404 then Inl (WorkflowNotFoundError (JStr workflow_name) self_namespace)
          else Inl (KubernetesAPIError (''Failed to get workflow logs: '' @
                 handle_kubernetes_api_exception (ApiException status reason)
                   ''get workflow logs'' (Some ''Workflow'')))
      | Inl (OtherException msg) \<Rightarrow>
          Inl (KubernetesAPIError (''Unexpected error getting workflow logs: '' @ msg))
      | Inr workflow \<Rightarrow>
          (case collect_logs repr read_pod_log step workflow of
             Inl msg \<Rightarrow> Inl (KubernetesAPIError (''Unexpected error getting workflow logs: '' @ msg))
           | Inr text \<Rightarrow> Inr text))"

text \<open>
  \<open>stream_workflow_logs\<close> is a generator.  Its run is the list of the lines it yields
  and how it ends: exhausted (\<open>None\<close>) or by raising (\<open>Some\<close> of the exception).
  \<open>read_pod_stream\<close> is \<open>read_namespaced_pod_log\<close> with \<open>follow\<close> and
  \<open>_preload_content=False\<close>: it raises, or gives a stream, which is the decoded lines
  it delivers and the exception that ends the iteration, if one does.
\<close>

type_synonym pod_stream = "string list \<times> api_failure option"

definition rstrip :: "string \<Rightarrow> string" where
  "rstrip s = rev (dropWhile py_isspace (rev s))"

definition step_failure_line :: "(json \<Rightarrow> string) \<Rightarrow> string \<times> dict \<Rightarrow> int \<Rightarrow> string \<Rightarrow> string" where
  "step_failure_line repr item status reason =
     (if status = 404
      then ''Step '' @ py_str repr (display_name_of item) @ '': Pod not found or not started yet''
      else ''Step '' @ py_str repr (display_name_of item) @ '': Failed to stream logs: '' @ reason)"

fun stream_units ::
  "(json \<Rightarrow> string) \<Rightarrow> (json \<Rightarrow> api_failure + pod_stream) \<Rightarrow> (string \<times> dict) list
     \<Rightarrow> string list \<times> string option"
where
  "stream_units repr read_pod_stream [] = ([], None)"
| "stream_units repr read_pod_stream (item # items) =
     (let header = ''=== Streaming logs from step: '' @ py_str repr (display_name_of item) @ '' ===''
      in case read_pod_stream (pod_name_of item) of
           Inl (ApiException status reason) \<Rightarrow>
             (case stream_units repr read_pod_stream items of
                (ls, r) \<Rightarrow> (header # step_failure_line repr item status reason # ls, r))
         | Inl (OtherException msg) \<Rightarrow> ([header], Some msg)
         | Inr (lines, None) \<Rightarrow>
             (case stream_units repr read_pod_stream items of
                (ls, r) \<Rightarrow> (header # map rstrip lines @ ls, r))
         | Inr (lines, Some (ApiException status reason)) \<Rightarrow>
             (case stream_units repr read_pod_stream items of
                (ls, r) \<Rightarrow>
                  (header # map rstrip lines @ step_failure_line repr item status reason # ls, r))
         | Inr (lines, Some (OtherException msg)) \<Rightarrow> (header # map rstrip lines, Some msg))"

text \<open>
  The generator as a whole.  The outer handler catches \<open>ApiException\<close> only, which the
  first API call alone can raise there; every other exception leaves the generator as
  it is.
\<close>

definition stream_workflow_logs ::
  "(json \<Rightarrow> string) \<Rightarrow> (string \<Rightarrow> api_failure + dict) \<Rightarrow> (json \<Rightarrow> api_failure + pod_stream)
     \<Rightarrow> string \<Rightarrow> string option \<Rightarrow> string list \<times> string option"
where
  "stream_workflow_logs repr get_object read_pod_stream workflow_name step =
     (case get_object workflow_name of
        Inl (ApiException status reason) \<Rightarrow> ([], Some (''Failed to stream workflow logs: '' @ reason))
      | Inl (OtherException msg) \<Rightarrow> ([], Some msg)
      | Inr workflow \<Rightarrow>
          (case py_get workflow ''status'' (JObj []) of
             JObj status \<Rightarrow>
               (case py_get status ''nodes'' (JObj []) of
                  JObj node_items \<Rightarrow>
                    (case stream_targets step node_items of
                       Inl e \<Rightarrow> ([], Some e)
                     | Inr target_nodes \<Rightarrow> stream_units repr read_pod_stream target_nodes)
                | n \<Rightarrow> ([], Some (attribute_error n ''items'')))
           | s \<Rightarrow> ([], Some (attribute_error s ''get''))))"

text \<open>
  For stating what the selections are: the items of a node map that are dictionaries,
  in order, and the lines that one target contributes to \<open>logs\<close>.
\<close>

fun dicts_of :: "(string \<times> json) list \<Rightarrow> (string \<times> dict) list" where
  "dicts_of [] = []"
| "dicts_of ((k, JObj d) # items) = (k, d) # dicts_of items"
| "dicts_of (item # items) = dicts_of items"

definition log_block ::
  "(json \<Rightarrow> string) \<Rightarrow> (json \<Rightarrow> api_failure + string) \<Rightarrow> string \<times> dict \<Rightarrow> string list"
where
  "log_block repr read_pod_log item =
     (case read_pod_log (pod_name_of item) of
        Inr pod_logs \<Rightarrow>
          [''=== Logs from step: '' @ py_str repr (display_name_of item) @ '' ==='', pod_logs, []]
      | Inl (ApiException status reason) \<Rightarrow>
          [if status = 404
           then ''=== Step '' @ py_str repr (display_name_of item) @
                '': Pod not found or not started yet ===''
           else ''=== Step '' @ py_str repr (display_name_of item) @
                '': Failed to retrieve logs: '' @ reason @ '' ==='',
           []]
      | Inl (OtherException msg) \<Rightarrow> [])"

section \<open>WorkflowClient: listing and deleting\<close>









section \<open>The command line: batch deletion and watch mode\<close>

text \<open>
  The batch deletion loop of the \<open>workflows delete\<close> command.  \<open>workflows_to_delete\<close>
  holds the \<open>name\<close> and \<open>phase\<close> of every workflow selected.  The state of the loop is
  the two counters and the error lines printed so far.
\<close>

record batch_result =
  deleted_count :: nat
  failed_count :: nat
  printed :: "string list"



definition display_results :: "batch_result \<Rightarrow> string list" where
  "display_results r =
     (if deleted_count r > 0
      then [''Successfully deleted '' @ decimal (deleted_count r) @ '' workflow(s)''] else []) @
     (if failed_count r > 0
      then [''Failed to delete '' @ decimal (failed_count r) @ '' workflow(s)''] else [])"

text \<open>
  \<open>Formatters.format_workflow_status\<close>, which watch mode calls on every status it
  fetches.  What it computes is handed to the rich library, so its result here is what
  it hands over: the pieces appended to the status text, each with its style, the border
  colour of the panel, and the rows added to the steps table.  The library calls that
  decide whether it raises are parameters:
  \<^item> \<open>repr_of\<close>: Python's \<open>repr\<close> of a list or dictionary (for \<open>str\<close> in an f-string);
  \<^item> \<open>strftime\<close>: \<open>d.strftime('%Y-%m-%d %H:%M:%S')\<close>;
  \<^item> \<open>seconds_between a b\<close>: \<open>int((a - b).total_seconds())\<close>, or the text of the
    \<open>TypeError\<close> that subtracting an aware and a naive \<open>datetime\<close> raises;
  \<^item> \<open>seconds_since d\<close>: \<open>int((now - d).total_seconds())\<close> with \<open>now\<close> taken in the time
    zone of \<open>d\<close>;
  \<^item> \<open>add_row_error\<close>: the text of the \<open>NotRenderableError\<close> that \<open>table.add_row\<close> raises
    on the cells \<open>display_name\<close>, \<open>type\<close> and \<open>message\<close> of a node, if it does;
  \<^item> \<open>print_table_error\<close>: the text of the \<open>MarkupError\<close> that \<open>console.print(table)\<close>
    raises on the rows of the steps table, whose string cells it reads as console markup,
    if it does.
  A row of the steps table is the five cells of \<open>table.add_row\<close>: display name, type, the
  status text with its style, the duration and the message.
  The phase icons lie outside the 8-bit code points and are given by their UTF-8 bytes.
\<close>

type_synonym table_row = "json \<times> json \<times> (string \<times> string) \<times> string \<times> json"

record 'dt formatter_env =
  repr_of :: "json \<Rightarrow> string"
  strftime :: "'dt \<Rightarrow> string"
  seconds_between :: "'dt \<Rightarrow> 'dt \<Rightarrow> string + int"
  seconds_since :: "'dt \<Rightarrow> int"
  add_row_error :: "json \<Rightarrow> json \<Rightarrow> json \<Rightarrow> string option"
  print_table_error :: "table_row list \<Rightarrow> string option"

text \<open>
  \<open>phase_colors.get(phase, "white")\<close> and \<open>phase_icons.get(phase, ...)\<close>: a list or a
  dictionary is unhashable, and the lookup raises \<open>TypeError\<close>.
\<close>

definition unhashable :: "json \<Rightarrow> bool" where
  "unhashable v = (case v of JList xs \<Rightarrow> True | JObj kvs \<Rightarrow> True | _ \<Rightarrow> False)"

definition unhashable_error :: "json \<Rightarrow> error" where
  "unhashable_error v = TypeError (''unhashable type: '' @ [CHR 0x27] @ type_name v @ [CHR 0x27])"

definition get_phase_color :: "json \<Rightarrow> error + string" where
  "get_phase_color p =
     (if unhashable p then Inl (unhashable_error p)
      else Inr (if p = JStr ''Running'' then ''blue''
                else if p = JStr ''Succeeded'' then ''green''
                else if p = JStr ''Failed'' then ''red''
                else if p = JStr ''Error'' then ''red''
                else if p = JStr ''Pending'' then ''yellow''
                else if p = JStr ''Skipped'' then ''dim''
                else if p = JStr ''Omitted'' then ''dim''
                else ''white''))"

definition get_phase_icon :: "json \<Rightarrow> error + string" where
  "get_phase_icon p =
     (if unhashable p then Inl (unhashable_error p)
      else Inr (if p = JStr ''Running'' then [CHR 0xE2, CHR 0x8F, CHR 0xB3]
                else if p = JStr ''Succeeded'' then [CHR 0xE2, CHR 0x9C, CHR 0x93]
                else if p = JStr ''Failed'' then [CHR 0xE2, CHR 0x9C, CHR 0x97]
                else if p = JStr ''Error'' then [CHR 0xE2, CHR 0x9C, CHR 0x97]
                else if p = JStr ''Pending'' then [CHR 0xE2, CHR 0x97, CHR 0x8B]
                else if p = JStr ''Skipped'' then [CHR 0xE2, CHR 0x8A, CHR 0x98]
                else if p = JStr ''Omitted'' then [CHR 0xE2, CHR 0x8A, CHR 0x98]
                else [CHR 0xE2, CHR 0x80, CHR 0xA2]))"

text \<open>
  \<open>_format_duration(started_at, finished_at)\<close>.  Its callers pass time stamps that may
  be \<open>None\<close>: then \<open>finished_at - started_at\<close> raises \<open>TypeError\<close>, and
  \<open>started_at.tzinfo\<close> raises \<open>AttributeError\<close>.  \<open>//\<close> and \<open>%\<close> are the floor division and
  its remainder, as \<open>div\<close> and \<open>mod\<close> on \<open>int\<close>.
\<close>

definition hours_minutes_seconds :: "int \<Rightarrow> string" where
  "hours_minutes_seconds total_seconds =
     (let hours = total_seconds div 3600;
          minutes = (total_seconds mod 3600) div 60;
          seconds = total_seconds mod 60
      in if hours > 0
         then format_int hours @ ''h '' @ format_int minutes @ ''m '' @ format_int seconds @ ''s''
         else if minutes > 0 then format_int minutes @ ''m '' @ format_int seconds @ ''s''
         else format_int seconds @ ''s'')"

definition format_duration ::
  "('dt, 'x) formatter_env_scheme \<Rightarrow> 'dt option \<Rightarrow> 'dt option \<Rightarrow> error + string"
where
  "format_duration env started finished =
     (case finished of
        Some fin \<Rightarrow>
          (case started of
             None \<Rightarrow>
               Inl (TypeError (''unsupported operand type(s) for -: '' @ [CHR 0x27] @
                 ''datetime.datetime'' @ [CHR 0x27] @ '' and '' @ [CHR 0x27] @ ''NoneType'' @
                 [CHR 0x27]))
           | Some st \<Rightarrow>
               (case seconds_between env fin st of
                  Inl msg \<Rightarrow> Inl (TypeError msg)
                | Inr total_seconds \<Rightarrow> Inr (hours_minutes_seconds total_seconds)))
      | None \<Rightarrow>
          (case started of
             None \<Rightarrow> Inl (AttributeError (attribute_error JNull ''tzinfo''))
           | Some st \<Rightarrow> Inr (hours_minutes_seconds (seconds_since env st))))"

text \<open>
  \<open>node.message[:50] + "..." if len(node.message) > 50 else node.message\<close>: a value
  without a length raises \<open>TypeError\<close>; so does a list of more than 50 elements when
  \<open>"..."\<close> is added to its slice, and a dictionary of more than 50 keys when it is sliced
  (\<open>KeyError\<close> from Python 3.12 on).
\<close>

definition truncate_message :: "json \<Rightarrow> error + json" where
  "truncate_message m =
     (case m of
        JStr s \<Rightarrow> Inr (if length s > 50 then JStr (take 50 s @ ''...'') else JStr s)
      | JList xs \<Rightarrow>
          if length xs > 50
          then Inl (TypeError (''can only concatenate list (not '' @ [CHR 0x22] @ ''str'' @
                      [CHR 0x22] @ '') to list''))
          else Inr m
      | JObj kvs \<Rightarrow>
          if length kvs > 50
          then Inl (TypeError (''unhashable type: '' @ [CHR 0x27] @ ''slice'' @ [CHR 0x27]))
          else Inr m
      | _ \<Rightarrow>
          Inl (TypeError (''object of type '' @ [CHR 0x27] @ type_name m @ [CHR 0x27] @
                 '' has no len()'')))"

text \<open>The loop over \<open>status.nodes\<close> that fills the steps table.\<close>

fun format_nodes ::
  "('dt, 'x) formatter_env_scheme \<Rightarrow> 'dt WorkflowNode list \<Rightarrow> error + table_row list"
where
  "format_nodes env [] = Inr []"
| "format_nodes env (node # rest) =
     (case get_phase_color (node_phase node) of
        Inl e \<Rightarrow> Inl e
      | Inr node_color \<Rightarrow>
     (case get_phase_icon (node_phase node) of
        Inl e \<Rightarrow> Inl e
      | Inr node_icon \<Rightarrow>
     (case format_duration env (node_started_at node) (node_finished_at node) of
        Inl e \<Rightarrow> Inl e
      | Inr node_duration \<Rightarrow>
     (case truncate_message (node_message node) of
        Inl e \<Rightarrow> Inl e
      | Inr msg \<Rightarrow>
     (case add_row_error env (display_name node) (node_type node) msg of
        Some refusal \<Rightarrow> Inl (NotRenderableError refusal)
      | None \<Rightarrow>
     (case format_nodes env rest of
        Inl e \<Rightarrow> Inl e
      | Inr rows \<Rightarrow>
          Inr ((display_name node, node_type node,
                (node_icon @ '' '' @ py_str (repr_of env) (node_phase node), node_color),
                node_duration, msg) # rows)))))))"

text \<open>
  The body of \<open>if status.nodes:\<close>: the table is filled, then printed.
\<close>

definition format_table ::
  "('dt, 'x) formatter_env_scheme \<Rightarrow> 'dt WorkflowNode list \<Rightarrow> error + table_row list"
where
  "format_table env ns =
     (case format_nodes env ns of
        Inl e \<Rightarrow> Inl e
      | Inr rows \<Rightarrow>
          (case print_table_error env rows of
             Some msg \<Rightarrow> Inl (MarkupError msg)
           | None \<Rightarrow> Inr rows))"

record formatted_status =
  status_text :: "(string \<times> string) list"
  border_style :: string
  table_rows :: "table_row list"

text \<open>
  \<open>format_workflow_status\<close>.  \<open>status.started_at.strftime\<close> is not guarded: a status
  without a start time raises \<open>AttributeError\<close>.  The exceptions are in the order in
  which the statements run: the colour of the phase, the start time, the duration, then
  the steps table, which a status without nodes does not have.
\<close>

definition format_workflow_status ::
  "('dt, 'x) formatter_env_scheme \<Rightarrow> 'dt WorkflowStatus \<Rightarrow> error + formatted_status"
where
  "format_workflow_status env status =
     (case get_phase_color (phase status) of
        Inl e \<Rightarrow> Inl e
      | Inr color \<Rightarrow>
     (case get_phase_icon (phase status) of
        Inl e \<Rightarrow> Inl e
      | Inr icon \<Rightarrow>
     (case started_at status of
        None \<Rightarrow> Inl (AttributeError (attribute_error JNull ''strftime''))
      | Some started \<Rightarrow>
     (case format_duration env (Some started) (finished_at status) of
        Inl e \<Rightarrow> Inl e
      | Inr duration \<Rightarrow>
     (case (if nodes status = [] then Inr [] else format_table env (nodes status)) of
        Inl e \<Rightarrow> Inl e
      | Inr rows \<Rightarrow>
          Inr \<lparr> status_text =
                  [(icon @ '' '', color),
                   (''Workflow: '' @ py_str (repr_of env) (name status) @ ''\<newline>'', ''bold white''),
                   (''Namespace: '' @ py_str (repr_of env) (namespace status) @ ''\<newline>'', ''dim''),
                   (''Status: '', ''dim''),
                   (py_str (repr_of env) (phase status) @ ''\<newline>'', ''bold '' @ color),
                   (''Progress: '' @ py_str (repr_of env) (progress status) @ ''\<newline>'', ''dim''),
                   (''Started: '' @ strftime env started @ ''\<newline>'', ''dim'')] @
                  (case finished_at status of
                     Some fin \<Rightarrow> [(''Finished: '' @ strftime env fin @ ''\<newline>'', ''dim'')]
                   | None \<Rightarrow> []) @
                  [(''Duration: '' @ duration @ ''\<newline>'', ''dim'')] @
                  (if truthy (message status)
                   then [(''Message: '' @ py_str (repr_of env) (message status) @ ''\<newline>'',
                          ''yellow'')]
                   else []),
                border_style = color,
                table_rows = rows \<rparr>)))))"

text \<open>
  Watch mode of the \<open>workflows status\<close> command: \<open>while True\<close>, fetch the status, format
  it, print it, leave the loop when the phase is one of \<open>Succeeded\<close>, \<open>Failed\<close>, \<open>Error\<close>,
  else sleep two seconds.  The remote state changes between the iterations, so the API is
  indexed by the iteration.  \<open>KeyboardInterrupt\<close> can arrive while the status is fetched
  and displayed (\<open>interrupt_fetch\<close>) or during the sleep (\<open>interrupt_sleep\<close>); the loop is
  left, and the handler prints that watching stopped.  An exception of
  \<open>get_workflow_status\<close>, of \<open>format_workflow_status\<close> or of \<open>console.print(output)\<close>
  leaves the loop too, for the handler of the command.  \<open>console.print\<close> reads its
  argument as console markup and raises \<open>MarkupError\<close> on a closing tag that matches no
  open one; \<open>print_error\<close> is the text of that exception, if the formatted status has
  one.  The other lines that the loop prints are constants, or hold a phase that is one of
  the three terminal ones.  The run is the list of the snapshots displayed and the way
  the loop ended; a loop that never ends has no run (\<open>None\<close>).
\<close>

record 'dt console_env = "'dt formatter_env" +
  print_error :: "formatted_status \<Rightarrow> string option"

datatype watch_end =
    Completed json
  | Stopped
  | Raised error

definition is_terminal :: "json \<Rightarrow> bool" where
  "is_terminal p = (p = JStr ''Succeeded'' \<or> p = JStr ''Failed'' \<or> p = JStr ''Error'')"

partial_function (option) watch_loop ::
  "('dt, 'x) console_env_scheme \<Rightarrow> (string \<Rightarrow> 'dt option) \<Rightarrow> string
     \<Rightarrow> (nat \<Rightarrow> string \<Rightarrow> api_failure + dict) \<Rightarrow> (nat \<Rightarrow> bool) \<Rightarrow> (nat \<Rightarrow> bool) \<Rightarrow> string
     \<Rightarrow> nat \<Rightarrow> 'dt WorkflowStatus list \<Rightarrow> ('dt WorkflowStatus list \<times> watch_end) option"
where
  "watch_loop env fromisoformat self_namespace remote interrupt_fetch interrupt_sleep
     workflow_name i shown =
     (if interrupt_fetch i then Some (shown, Stopped)
      else case get_workflow_status fromisoformat self_namespace (remote i) workflow_name of
             Inl e \<Rightarrow> Some (shown, Raised e)
           | Inr status \<Rightarrow>
               (case format_workflow_status env status of
                  Inl e \<Rightarrow> Some (shown, Raised e)
                | Inr output \<Rightarrow>
                    (case print_error env output of
                       Some msg \<Rightarrow> Some (shown, Raised (MarkupError msg))
                     | None \<Rightarrow>
                         if is_terminal (phase status)
                         then Some (shown @ [status], Completed (phase status))
                         else if interrupt_sleep i then Some (shown @ [status], Stopped)
                         else watch_loop env fromisoformat self_namespace remote interrupt_fetch
                                interrupt_sleep workflow_name (Suc i) (shown @ [status]))))"

definition watch ::
  "('dt, 'x) console_env_scheme \<Rightarrow> (string \<Rightarrow> 'dt option) \<Rightarrow> string
     \<Rightarrow> (nat \<Rightarrow> string \<Rightarrow> api_failure + dict) \<Rightarrow> (nat \<Rightarrow> bool) \<Rightarrow> (nat \<Rightarrow> bool) \<Rightarrow> string
     \<Rightarrow> ('dt WorkflowStatus list \<times> watch_end) option"
where
  "watch env fromisoformat self_namespace remote interrupt_fetch interrupt_sleep workflow_name =
     watch_loop env fromisoformat self_namespace remote interrupt_fetch interrupt_sleep
       workflow_name 0 []"




section \<open>TemplateGenerator\<close>

text \<open>
  The three \<open>generate_*_template\<close> methods build a dictionary literal, serialise it with
  \<open>yaml.dump(template, default_flow_style=False, sort_keys=False)\<close>, check the string
  with \<open>_validate_yaml\<close> and return it.  The dictionaries are JSON values (the keys in
  the order of the literal); the multi-line script sources are constants of their own.
\<close>

subsection \<open>The application template\<close>

text \<open>The \<open>source\<close> strings of \<open>generate_application_template\<close>, one per script step.\<close>

definition application_validate_inputs_source :: string where
  \<open>application_validate_inputs_source =
''
if [ -z "{{workflow.parameters.app_name}}" ]; then
  echo "Error: app_name is required"
  exit 1
fi
if [ -z "{{workflow.parameters.namespace}}" ]; then
  echo "Error: namespace is required"
  exit 1
fi
if [ -z "{{workflow.parameters.repo_url}}" ]; then
  echo "Error: repo_url is required"
  exit 1
fi
if [ -z "{{workflow.parameters.chart_path}}" ]; then
  echo "Error: chart_path is required"
  exit 1
fi
if [ -z "{{workflow.parameters.destination_namespace}}" ]; then
  echo "Error: destination_namespace is required"
  exit 1
fi
echo "All required inputs validated successfully"
''\<close>

definition application_create_namespace_source :: string where
  \<open>application_create_namespace_source =
''
kubectl create namespace {{workflow.parameters.namespace}} --dry-run=client -o yaml | kubectl apply -f -
echo "Namespace {{workflow.parameters.namespace}} ready"
''\<close>

definition application_generate_manifest_source :: string where
  \<open>application_generate_manifest_source =
''
# Detect if this is a Helm repository or Git repository
REPO_URL="{{workflow.parameters.repo_url}}"
CHART_PATH="{{workflow.parameters.chart_path}}"

# Check if it's a Helm repository
if echo "$REPO_URL" | grep -qE "(charts'' @ [CHR 0x5C] @ ''.|artifacthub'' @ [CHR 0x5C] @ ''.io|chartmuseum)"; then
  # Helm repository - use 'chart' field
  cat > /tmp/application.yaml <<EOF
apiVersion: argoproj.io/v1alpha1
kind: Application
metadata:
  name: {{workflow.parameters.app_name}}
  namespace: {{workflow.parameters.namespace}}
spec:
  project: default
  source:
    repoURL: {{workflow.parameters.repo_url}}
    chart: {{workflow.parameters.chart_path}}
    targetRevision: "*"
    helm: {}
  destination:
    server: {{workflow.parameters.destination_cluster}}
    namespace: {{workflow.parameters.destination_namespace}}
  syncPolicy:
    automated:
      selfHeal: {{workflow.parameters.sync_policy_self_heal}}
      prune: {{workflow.parameters.sync_policy_prune}}
    syncOptions:
    - CreateNamespace=true
EOF
else
  # Git repository - use 'path' field
  cat > /tmp/application.yaml <<EOF
apiVersion: argoproj.io/v1alpha1
kind: Application
metadata:
  name: {{workflow.parameters.app_name}}
  namespace: {{workflow.parameters.namespace}}
spec:
  project: default
  source:
    repoURL: {{workflow.parameters.repo_url}}
    path: {{workflow.parameters.chart_path}}
    targetRevision: HEAD
    helm: {}
  destination:
    server: {{workflow.parameters.destination_cluster}}
    namespace: {{workflow.parameters.destination_namespace}}
  syncPolicy:
    automated:
      selfHeal: {{workflow.parameters.sync_policy_self_heal}}
      prune: {{workflow.parameters.sync_policy_prune}}
    syncOptions:
    - CreateNamespace=true
EOF
fi

# Add valueFiles only if provided
if [ -n "{{workflow.parameters.values_file}}" ]; then
  sed -i 's/helm: {}/helm:'' @ [CHR 0x5C] @ ''n      valueFiles:'' @ [CHR 0x5C] @ ''n      - {{workflow.parameters.values_file}}/' /tmp/application.yaml
fi

if [ "{{workflow.parameters.sync_policy_automated}}" = "false" ]; then
  sed -i '/automated:/,/prune:/d' /tmp/application.yaml
fi

cat /tmp/application.yaml
''\<close>

definition application_apply_application_source :: string where
  \<open>application_apply_application_source =
''
# Detect if this is a Helm repository or Git repository
REPO_URL="{{workflow.parameters.repo_url}}"
CHART_PATH="{{workflow.parameters.chart_path}}"

# Check if it's a Helm repository (contains 'charts' in domain or common Helm repo patterns)
if echo "$REPO_URL" | grep -qE "(charts'' @ [CHR 0x5C] @ ''.|artifacthub'' @ [CHR 0x5C] @ ''.io|chartmuseum)"; then
  # Helm repository - use 'chart' field
  cat > /tmp/application.yaml <<EOF
apiVersion: argoproj.io/v1alpha1
kind: Application
metadata:
  name: {{workflow.parameters.app_name}}
  namespace: {{workflow.parameters.namespace}}
spec:
  project: default
  source:
    repoURL: {{workflow.parameters.repo_url}}
    chart: {{workflow.parameters.chart_path}}
    targetRevision: "*"
    helm: {}
  destination:
    server: {{workflow.parameters.destination_cluster}}
    namespace: {{workflow.parameters.destination_namespace}}
  syncPolicy:
    automated:
      selfHeal: {{workflow.parameters.sync_policy_self_heal}}
      prune: {{workflow.parameters.sync_policy_prune}}
    syncOptions:
    - CreateNamespace=true
EOF
else
  # Git repository - use 'path' field
  cat > /tmp/application.yaml <<EOF
apiVersion: argoproj.io/v1alpha1
kind: Application
metadata:
  name: {{workflow.parameters.app_name}}
  namespace: {{workflow.parameters.namespace}}
spec:
  project: default
  source:
    repoURL: {{workflow.parameters.repo_url}}
    path: {{workflow.parameters.chart_path}}
    targetRevision: HEAD
    helm: {}
  destination:
    server: {{workflow.parameters.destination_cluster}}
    namespace: {{workflow.parameters.destination_namespace}}
  syncPolicy:
    automated:
      selfHeal: {{workflow.parameters.sync_policy_self_heal}}
      prune: {{workflow.parameters.sync_policy_prune}}
    syncOptions:
    - CreateNamespace=true
EOF
fi

# Add valueFiles only if provided
if [ -n "{{workflow.parameters.values_file}}" ]; then
  sed -i 's/helm: {}/helm:'' @ [CHR 0x5C] @ ''n      valueFiles:'' @ [CHR 0x5C] @ ''n      - {{workflow.parameters.values_file}}/' /tmp/application.yaml
fi

if [ "{{workflow.parameters.sync_policy_automated}}" = "false" ]; then
  sed -i '/automated:/,/prune:/d' /tmp/application.yaml
fi

kubectl apply -f /tmp/application.yaml
echo "Application {{workflow.parameters.app_name}} applied successfully"
''\<close>

definition application_verify_creation_source :: string where
  \<open>application_verify_creation_source =
''
for i in 1 2 3 4 5; do
  if kubectl get application {{workflow.parameters.app_name}} -n {{workflow.parameters.namespace}} > /dev/null 2>&1; then
    echo "Application {{workflow.parameters.app_name}} verified successfully"
    exit 0
  fi
  echo "Waiting for application to be created... (attempt $i/5)"
  sleep 5
done
echo "Error: Application not found after verification"
exit 1
''\<close>

text \<open>The dictionary \<open>template\<close> of \<open>generate_application_template\<close>.\<close>

definition application_template :: "string \<Rightarrow> json" where
  \<open>application_template self_namespace =
     JObj
      [(''apiVersion'', JStr ''argoproj.io/v1alpha1''),
       (''kind'', JStr ''WorkflowTemplate''),
       (''metadata'', JObj
        [(''name'', JStr ''create-argocd-application''),
         (''namespace'', JStr self_namespace)]),
       (''spec'', JObj
        [(''serviceAccountName'', JStr ''argo-workflow-sa''),
         (''entrypoint'', JStr ''create-application''),
         (''arguments'', JObj
          [(''parameters'', JList
            [JObj [(''name'', JStr ''app_name'')],
             JObj [(''name'', JStr ''namespace'')],
             JObj [(''name'', JStr ''repo_url'')],
             JObj [(''name'', JStr ''chart_path'')],
             JObj
              [(''name'', JStr ''destination_cluster''),
               (''value'', JStr ''https://kubernetes.default.svc'')],
             JObj [(''name'', JStr ''destination_namespace'')],
             JObj [(''name'', JStr ''values_file''), (''value'', JStr [])],
             JObj [(''name'', JStr ''sync_policy_automated''), (''value'', JStr ''false'')],
             JObj [(''name'', JStr ''sync_policy_self_heal''), (''value'', JStr ''false'')],
             JObj [(''name'', JStr ''sync_policy_prune''), (''value'', JStr ''false'')]])]),
         (''templates'', JList
          [JObj
            [(''name'', JStr ''create-application''),
             (''steps'', JList
              [JList
                [JObj
                  [(''name'', JStr ''validate-inputs''),
                   (''template'', JStr ''validate-inputs'')]],
               JList
                [JObj
                  [(''name'', JStr ''create-namespace''),
                   (''template'', JStr ''create-namespace'')]],
               JList
                [JObj
                  [(''name'', JStr ''generate-manifest''),
                   (''template'', JStr ''generate-manifest'')]],
               JList
                [JObj
                  [(''name'', JStr ''apply-application''),
                   (''template'', JStr ''apply-application'')]],
               JList
                [JObj
                  [(''name'', JStr ''verify-creation''),
                   (''template'', JStr ''verify-creation'')]]])],
           JObj
            [(''name'', JStr ''validate-inputs''),
             (''script'', JObj
              [(''image'', JStr ''alpine:3.18''),
               (''command'', JList [JStr ''sh'']),
               (''source'', JStr application_validate_inputs_source)]),
             (''retryStrategy'', JObj [(''limit'', JStr ''2'')])],
           JObj
            [(''name'', JStr ''create-namespace''),
             (''script'', JObj
              [(''image'', JStr ''bitnami/kubectl:latest''),
               (''command'', JList [JStr ''sh'']),
               (''source'', JStr application_create_namespace_source)]),
             (''retryStrategy'', JObj [(''limit'', JStr ''2''), (''retryPolicy'', JStr ''OnError'')])],
           JObj
            [(''name'', JStr ''generate-manifest''),
             (''script'', JObj
              [(''image'', JStr ''alpine:3.18''),
               (''command'', JList [JStr ''sh'']),
               (''source'', JStr application_generate_manifest_source)]),
             (''retryStrategy'', JObj [(''limit'', JStr ''2'')])],
           JObj
            [(''name'', JStr ''apply-application''),
             (''script'', JObj
              [(''image'', JStr ''bitnami/kubectl:latest''),
               (''command'', JList [JStr ''sh'']),
               (''source'', JStr application_apply_application_source)]),
             (''retryStrategy'', JObj
              [(''limit'', JStr ''3''),
               (''retryPolicy'', JStr ''OnError''),
               (''backoff'', JObj
                [(''duration'', JStr ''5s''),
                 (''factor'', JInt 2),
                 (''maxDuration'', JStr ''1m'')])])],
           JObj
            [(''name'', JStr ''verify-creation''),
             (''script'', JObj
              [(''image'', JStr ''bitnami/kubectl:latest''),
               (''command'', JList [JStr ''sh'']),
               (''source'', JStr application_verify_creation_source)]),
             (''retryStrategy'', JObj [(''limit'', JStr ''2'')])]])])]\<close>

subsection \<open>The applicationset template\<close>

text \<open>The \<open>source\<close> strings of \<open>generate_applicationset_template\<close>, one per script step.\<close>

definition applicationset_validate_inputs_source :: string where
  \<open>applicationset_validate_inputs_source =
''
if [ -z "{{workflow.parameters.appset_name}}" ]; then
  echo "Error: appset_name is required"
  exit 1
fi
if [ -z "{{workflow.parameters.repo_url}}" ]; then
  echo "Error: repo_url is required"
  exit 1
fi
if [ -z "{{workflow.parameters.chart_path}}" ]; then
  echo "Error: chart_path is required"
  exit 1
fi
if [ -z "{{workflow.parameters.environments}}" ]; then
  echo "Error: environments is required"
  exit 1
fi
if [ "{{workflow.parameters.generator_type}}" != "list" ] && [ "{{workflow.parameters.generator_type}}" != "git" ]; then
  echo "Error: generator_type must be 'list' or 'git'"
  exit 1
fi
echo "All required inputs validated successfully"
''\<close>

definition applicationset_validate_environments_source :: string where
  \<open>applicationset_validate_environments_source =
''
apk add --no-cache jq

echo "{{workflow.parameters.environments}}" | jq -e '.' > /dev/null 2>&1
if [ $? -ne 0 ]; then
  echo "Error: environments must be valid JSON"
  exit 1
fi

env_count=$(echo "{{workflow.parameters.environments}}" | jq 'length')
if [ "$env_count" -eq 0 ]; then
  echo "Error: at least one environment is required"
  exit 1
fi

echo "{{workflow.parameters.environments}}" | jq -c '.[]' | while read env; do
  name=$(echo "$env" | jq -r '.name')
  cluster=$(echo "$env" | jq -r '.cluster_url')
  namespace=$(echo "$env" | jq -r '.namespace')
  
  if [ -z "$name" ] || [ "$name" = "null" ]; then
    echo "Error: environment name is required"
    exit 1
  fi
  if [ -z "$cluster" ] || [ "$cluster" = "null" ]; then
    echo "Error: cluster_url is required for environment $name"
    exit 1
  fi
  if [ -z "$namespace" ] || [ "$namespace" = "null" ]; then
    echo "Error: namespace is required for environment $name"
    exit 1
  fi
  
  echo "Environment $name validated successfully"
done

echo "All environments validated successfully"
''\<close>

definition applicationset_generate_manifest_source :: string where
  \<open>applicationset_generate_manifest_source =
''
apk add --no-cache jq

cat > /tmp/applicationset.yaml <<'EOF'
apiVersion: argoproj.io/v1alpha1
kind: ApplicationSet
metadata:
  name: {{workflow.parameters.appset_name}}
  namespace: argocd
spec:
  generators:
  - list:
      elements: []
  template:
    metadata:
      name: '{{workflow.parameters.appset_name}}-{{name}}'
    spec:
      project: default
      source:
        repoURL: {{workflow.parameters.repo_url}}
        path: {{workflow.parameters.chart_path}}
        targetRevision: HEAD
        helm:
          valueFiles:
          - '{{values_file}}'
      destination:
        server: '{{cluster_url}}'
        namespace: '{{namespace}}'
      syncPolicy:
        automated:
          selfHeal: {{workflow.parameters.sync_policy_self_heal}}
          prune: {{workflow.parameters.sync_policy_prune}}
        syncOptions:
        - CreateNamespace=true
EOF

if [ "{{workflow.parameters.sync_policy_automated}}" = "false" ]; then
  sed -i '/automated:/,/prune:/d' /tmp/applicationset.yaml
fi

# Generate elements from environments JSON
elements=$(echo '{{workflow.parameters.environments}}' | jq -c '[.[] | {name: .name, cluster_url: .cluster_url, namespace: .namespace, values_file: (.values_file // "values.yaml")}]')

# Insert elements into YAML using a temporary file
temp_yaml=$(cat /tmp/applicationset.yaml)
echo "$temp_yaml" | sed "s/elements: '' @ [CHR 0x5C] @ ''['' @ [CHR 0x5C] @ '']/elements: $elements/" > /tmp/applicationset.yaml

cat /tmp/applicationset.yaml
''\<close>

definition applicationset_apply_applicationset_source :: string where
  \<open>applicationset_apply_applicationset_source =
''
apk add --no-cache jq

cat > /tmp/applicationset.yaml <<'EOF'
apiVersion: argoproj.io/v1alpha1
kind: ApplicationSet
metadata:
  name: {{workflow.parameters.appset_name}}
  namespace: argocd
spec:
  generators:
  - list:
      elements: []
  template:
    metadata:
      name: '{{workflow.parameters.appset_name}}-{{name}}'
    spec:
      project: default
      source:
        repoURL: {{workflow.parameters.repo_url}}
        path: {{workflow.parameters.chart_path}}
        targetRevision: HEAD
        helm:
          valueFiles:
          - '{{values_file}}'
      destination:
        server: '{{cluster_url}}'
        namespace: '{{namespace}}'
      syncPolicy:
        automated:
          selfHeal: {{workflow.parameters.sync_policy_self_heal}}
          prune: {{workflow.parameters.sync_policy_prune}}
        syncOptions:
        - CreateNamespace=true
EOF

if [ "{{workflow.parameters.sync_policy_automated}}" = "false" ]; then
  sed -i '/automated:/,/prune:/d' /tmp/applicationset.yaml
fi

# Generate elements from environments JSON
elements=$(echo '{{workflow.parameters.environments}}' | jq -c '[.[] | {name: .name, cluster_url: .cluster_url, namespace: .namespace, values_file: (.values_file // "values.yaml")}]')

# Insert elements into YAML
temp_yaml=$(cat /tmp/applicationset.yaml)
echo "$temp_yaml" | sed "s/elements: '' @ [CHR 0x5C] @ ''['' @ [CHR 0x5C] @ '']/elements: $elements/" > /tmp/applicationset.yaml

kubectl apply -f /tmp/applicationset.yaml
echo "ApplicationSet {{workflow.parameters.appset_name}} applied successfully"
''\<close>

text \<open>The dictionary \<open>template\<close> of \<open>generate_applicationset_template\<close>.\<close>

definition applicationset_template :: "string \<Rightarrow> json" where
  \<open>applicationset_template self_namespace =
     JObj
      [(''apiVersion'', JStr ''argoproj.io/v1alpha1''),
       (''kind'', JStr ''WorkflowTemplate''),
       (''metadata'', JObj
        [(''name'', JStr ''create-argocd-applicationset''),
         (''namespace'', JStr self_namespace)]),
       (''spec'', JObj
        [(''serviceAccountName'', JStr ''argo-workflow-sa''),
         (''entrypoint'', JStr ''create-applicationset''),
         (''arguments'', JObj
          [(''parameters'', JList
            [JObj [(''name'', JStr ''appset_name'')],
             JObj [(''name'', JStr ''repo_url'')],
             JObj [(''name'', JStr ''chart_path'')],
             JObj [(''name'', JStr ''generator_type''), (''value'', JStr ''list'')],
             JObj [(''name'', JStr ''environments'')],
             JObj [(''name'', JStr ''sync_policy_automated''), (''value'', JStr ''false'')],
             JObj [(''name'', JStr ''sync_policy_self_heal''), (''value'', JStr ''false'')],
             JObj [(''name'', JStr ''sync_policy_prune''), (''value'', JStr ''false'')]])]),
         (''templates'', JList
          [JObj
            [(''name'', JStr ''create-applicationset''),
             (''steps'', JList
              [JList
                [JObj
                  [(''name'', JStr ''validate-inputs''),
                   (''template'', JStr ''validate-inputs'')]],
               JList
                [JObj
                  [(''name'', JStr ''validate-environments''),
                   (''template'', JStr ''validate-environments'')]],
               JList
                [JObj
                  [(''name'', JStr ''generate-manifest''),
                   (''template'', JStr ''generate-manifest'')]],
               JList
                [JObj
                  [(''name'', JStr ''apply-applicationset''),
                   (''template'', JStr ''apply-applicationset'')]]])],
           JObj
            [(''name'', JStr ''validate-inputs''),
             (''script'', JObj
              [(''image'', JStr ''alpine:3.18''),
               (''command'', JList [JStr ''sh'']),
               (''source'', JStr applicationset_validate_inputs_source)]),
             (''retryStrategy'', JObj [(''limit'', JStr ''2'')])],
           JObj
            [(''name'', JStr ''validate-environments''),
             (''script'', JObj
              [(''image'', JStr ''alpine:3.18''),
               (''command'', JList [JStr ''sh'']),
               (''source'', JStr applicationset_validate_environments_source)]),
             (''retryStrategy'', JObj [(''limit'', JStr ''2'')])],
           JObj
            [(''name'', JStr ''generate-manifest''),
             (''script'', JObj
              [(''image'', JStr ''alpine:3.18''),
               (''command'', JList [JStr ''sh'']),
               (''source'', JStr applicationset_generate_manifest_source)]),
             (''retryStrategy'', JObj [(''limit'', JStr ''2'')])],
           JObj
            [(''name'', JStr ''apply-applicationset''),
             (''script'', JObj
              [(''image'', JStr ''bitnami/kubectl:latest''),
               (''command'', JList [JStr ''sh'']),
               (''source'', JStr applicationset_apply_applicationset_source)]),
             (''retryStrategy'', JObj
              [(''limit'', JStr ''3''),
               (''retryPolicy'', JStr ''OnError''),
               (''backoff'', JObj
                [(''duration'', JStr ''5s''),
                 (''factor'', JInt 2),
                 (''maxDuration'', JStr ''1m'')])])]])])]\<close>

subsection \<open>The infrastructure template\<close>

text \<open>The \<open>source\<close> strings of \<open>generate_infrastructure_template\<close>, one per script step.\<close>

definition infrastructure_create_namespace_source :: string where
  \<open>infrastructure_create_namespace_source =
''
if [ -z "{{workflow.parameters.namespace}}" ]; then
  echo "Error: namespace is required"
  exit 1
fi

kubectl create namespace {{workflow.parameters.namespace}} --dry-run=client -o yaml | kubectl apply -f -
echo "Namespace {{workflow.parameters.namespace}} created successfully"
''\<close>

definition infrastructure_create_secrets_source :: string where
  \<open>infrastructure_create_secrets_source =
''
apk add --no-cache jq

secrets='{{workflow.parameters.secrets}}'

if [ "$secrets" = "[]" ] || [ -z "$secrets" ]; then
  echo "No secrets to create"
  exit 0
fi

echo "$secrets" | jq -e '.' > /dev/null 2>&1
if [ $? -ne 0 ]; then
  echo "Error: secrets must be valid JSON"
  exit 1
fi

echo "$secrets" | jq -c '.[]' | while read secret; do
  name=$(echo "$secret" | jq -r '.name')
  type=$(echo "$secret" | jq -r '.type // "Opaque"')
  data=$(echo "$secret" | jq -r '.data')
  
  if [ -z "$name" ] || [ "$name" = "null" ]; then
    echo "Error: secret name is required"
    exit 1
  fi
  
  echo "Creating secret: $name"
  
  # Build kubectl command
  cmd="kubectl create secret generic $name -n {{workflow.parameters.namespace}} --dry-run=client -o yaml"
  
  # Add data fields
  echo "$data" | jq -r 'to_entries[] | "--from-literal='' @ [CHR 0x5C] @ ''(.key)='' @ [CHR 0x5C] @ ''(.value)"' | while read arg; do
    cmd="$cmd $arg"
  done
  
  eval "$cmd" | kubectl apply -f -
  
  if [ $? -eq 0 ]; then
    echo "Secret $name created successfully"
  else
    echo "Error creating secret $name"
    exit 1
  fi
done

echo "All secrets created successfully"
''\<close>

definition infrastructure_create_configmaps_source :: string where
  \<open>infrastructure_create_configmaps_source =
''
apk add --no-cache jq

configmaps='{{workflow.parameters.configmaps}}'

if [ "$configmaps" = "[]" ] || [ -z "$configmaps" ]; then
  echo "No configmaps to create"
  exit 0
fi

echo "$configmaps" | jq -e '.' > /dev/null 2>&1
if [ $? -ne 0 ]; then
  echo "Error: configmaps must be valid JSON"
  exit 1
fi

echo "$configmaps" | jq -c '.[]' | while read cm; do
  name=$(echo "$cm" | jq -r '.name')
  data=$(echo "$cm" | jq -r '.data')
  
  if [ -z "$name" ] || [ "$name" = "null" ]; then
    echo "Error: configmap name is required"
    exit 1
  fi
  
  echo "Creating configmap: $name"
  
  # Build kubectl command
  cmd="kubectl create configmap $name -n {{workflow.parameters.namespace}} --dry-run=client -o yaml"
  
  # Add data fields
  echo "$data" | jq -r 'to_entries[] | "--from-literal='' @ [CHR 0x5C] @ ''(.key)='' @ [CHR 0x5C] @ ''(.value)"' | while read arg; do
    cmd="$cmd $arg"
  done
  
  eval "$cmd" | kubectl apply -f -
  
  if [ $? -eq 0 ]; then
    echo "ConfigMap $name created successfully"
  else
    echo "Error creating configmap $name"
    exit 1
  fi
done

echo "All configmaps created successfully"
''\<close>

definition infrastructure_execute_custom_scripts_source :: string where
  \<open>infrastructure_execute_custom_scripts_source =
''
if [ -z "{{workflow.parameters.custom_scripts}}" ]; then
  echo "No custom scripts to execute"
  exit 0
fi

echo "Executing custom scripts..."
echo "{{workflow.parameters.custom_scripts}}" > /tmp/custom_script.sh
chmod +x /tmp/custom_script.sh

/tmp/custom_script.sh

if [ $? -eq 0 ]; then
  echo "Custom scripts executed successfully"
else
  echo "Error executing custom scripts"
  exit 1
fi
''\<close>

text \<open>The dictionary \<open>template\<close> of \<open>generate_infrastructure_template\<close>.\<close>

definition infrastructure_template :: "string \<Rightarrow> json" where
  \<open>infrastructure_template self_namespace =
     JObj
      [(''apiVersion'', JStr ''argoproj.io/v1alpha1''),
       (''kind'', JStr ''WorkflowTemplate''),
       (''metadata'', JObj
        [(''name'', JStr ''provision-infrastructure''),
         (''namespace'', JStr self_namespace)]),
       (''spec'', JObj
        [(''serviceAccountName'', JStr ''argo-workflow-sa''),
         (''entrypoint'', JStr ''provision-infrastructure''),
         (''arguments'', JObj
          [(''parameters'', JList
            [JObj [(''name'', JStr ''namespace'')],
             JObj [(''name'', JStr ''secrets''), (''value'', JStr ''[]'')],
             JObj [(''name'', JStr ''configmaps''), (''value'', JStr ''[]'')],
             JObj [(''name'', JStr ''custom_scripts''), (''value'', JStr [])]])]),
         (''templates'', JList
          [JObj
            [(''name'', JStr ''provision-infrastructure''),
             (''steps'', JList
              [JList
                [JObj
                  [(''name'', JStr ''create-namespace''),
                   (''template'', JStr ''create-namespace'')]],
               JList
                [JObj
                  [(''name'', JStr ''create-secrets''),
                   (''template'', JStr ''create-secrets'')]],
               JList
                [JObj
                  [(''name'', JStr ''create-configmaps''),
                   (''template'', JStr ''create-configmaps'')]],
               JList
                [JObj
                  [(''name'', JStr ''execute-custom-scripts''),
                   (''template'', JStr ''execute-custom-scripts''),
                   (''when'', JStr (''{{workflow.parameters.custom_scripts}} != '' @ [CHR 0x27, CHR 0x27]))]]])],
           JObj
            [(''name'', JStr ''create-namespace''),
             (''script'', JObj
              [(''image'', JStr ''bitnami/kubectl:latest''),
               (''command'', JList [JStr ''sh'']),
               (''source'', JStr infrastructure_create_namespace_source)]),
             (''retryStrategy'', JObj [(''limit'', JStr ''2''), (''retryPolicy'', JStr ''OnError'')])],
           JObj
            [(''name'', JStr ''create-secrets''),
             (''script'', JObj
              [(''image'', JStr ''bitnami/kubectl:latest''),
               (''command'', JList [JStr ''sh'']),
               (''source'', JStr infrastructure_create_secrets_source)]),
             (''retryStrategy'', JObj [(''limit'', JStr ''2''), (''retryPolicy'', JStr ''OnError'')])],
           JObj
            [(''name'', JStr ''create-configmaps''),
             (''script'', JObj
              [(''image'', JStr ''bitnami/kubectl:latest''),
               (''command'', JList [JStr ''sh'']),
               (''source'', JStr infrastructure_create_configmaps_source)]),
             (''retryStrategy'', JObj [(''limit'', JStr ''2''), (''retryPolicy'', JStr ''OnError'')])],
           JObj
            [(''name'', JStr ''execute-custom-scripts''),
             (''script'', JObj
              [(''image'', JStr ''bitnami/kubectl:latest''),
               (''command'', JList [JStr ''sh'']),
               (''source'', JStr infrastructure_execute_custom_scripts_source)]),
             (''retryStrategy'', JObj [(''limit'', JStr ''2''), (''retryPolicy'', JStr ''OnError'')])]])])]\<close>

subsection \<open>Serialising and validating\<close>

text \<open>
  PyYAML is a library: \<open>yaml.dump\<close> with the two options of the source is the parameter
  \<open>yaml_dump\<close>, and \<open>yaml.safe_load\<close> is the parameter \<open>yaml_safe_load\<close>, whose \<open>Inl\<close> is the
  text of the \<open>yaml.YAMLError\<close> it raises.
\<close>

definition validate_yaml :: "(string \<Rightarrow> string + json) \<Rightarrow> string \<Rightarrow> error + bool" where
  "validate_yaml yaml_safe_load yaml_str =
     (case yaml_safe_load yaml_str of
        Inr v \<Rightarrow> Inr True
      | Inl e \<Rightarrow> Inl (ValidationError (''Invalid YAML syntax: '' @ e)))"

datatype template_kind = Application | ApplicationSet | Infrastructure

definition template_dict :: "template_kind \<Rightarrow> string \<Rightarrow> json" where
  "template_dict kind self_namespace =
     (case kind of
        Application \<Rightarrow> application_template self_namespace
      | ApplicationSet \<Rightarrow> applicationset_template self_namespace
      | Infrastructure \<Rightarrow> infrastructure_template self_namespace)"

text \<open>
  The common tail of the three methods: dump, validate (an exception of
  \<open>_validate_yaml\<close> leaves the method), return the string.
\<close>

definition generate_template ::
  "(json \<Rightarrow> string) \<Rightarrow> (string \<Rightarrow> string + json) \<Rightarrow> template_kind \<Rightarrow> string \<Rightarrow> error + string"
where
  "generate_template yaml_dump yaml_safe_load kind self_namespace =
     (let yaml_str = yaml_dump (template_dict kind self_namespace)
      in case validate_yaml yaml_safe_load yaml_str of
           Inl e \<Rightarrow> Inl e
         | Inr ok \<Rightarrow> Inr yaml_str)"

definition generate_application_template ::
  "(json \<Rightarrow> string) \<Rightarrow> (string \<Rightarrow> string + json) \<Rightarrow> string \<Rightarrow> error + string"
where
  "generate_application_template yaml_dump yaml_safe_load self_namespace =
     generate_template yaml_dump yaml_safe_load Application self_namespace"

definition generate_applicationset_template ::
  "(json \<Rightarrow> string) \<Rightarrow> (string \<Rightarrow> string + json) \<Rightarrow> string \<Rightarrow> error + string"
where
  "generate_applicationset_template yaml_dump yaml_safe_load self_namespace =
     generate_template yaml_dump yaml_safe_load ApplicationSet self_namespace"

definition generate_infrastructure_template ::
  "(json \<Rightarrow> string) \<Rightarrow> (string \<Rightarrow> string + json) \<Rightarrow> string \<Rightarrow> error + string"
where
  "generate_infrastructure_template yaml_dump yaml_safe_load self_namespace =
     generate_template yaml_dump yaml_safe_load Infrastructure self_namespace"

subsection \<open>Reading a template document\<close>

text \<open>
  The paths of the template document that the retry policy is read from:
  \<open>spec.templates\<close>, and in a template \<open>script.source\<close>, \<open>retryStrategy.limit\<close> and
  \<open>retryStrategy.backoff\<close>.  A step template is one with a \<open>script\<close>; the entry point,
  with \<open>steps\<close>, is the sequence of the steps.
\<close>

definition field :: "string \<Rightarrow> json \<Rightarrow> json option" where
  "field k v = (case v of JObj d \<Rightarrow> map_of d k | _ \<Rightarrow> None)"

definition templates_of :: "json \<Rightarrow> json list" where
  "templates_of doc =
     (case field ''spec'' doc of
        Some spec \<Rightarrow> (case field ''templates'' spec of Some (JList ts) \<Rightarrow> ts | _ \<Rightarrow> [])
      | None \<Rightarrow> [])"

definition is_step_template :: "json \<Rightarrow> bool" where
  "is_step_template t = (field ''script'' t \<noteq> None)"

definition step_templates :: "json \<Rightarrow> json list" where
  "step_templates doc = filter is_step_template (templates_of doc)"

definition template_name :: "json \<Rightarrow> string" where
  "template_name t = (case field ''name'' t of Some (JStr s) \<Rightarrow> s | _ \<Rightarrow> [])"

definition script_source :: "json \<Rightarrow> string" where
  "script_source t =
     (case field ''script'' t of
        Some s \<Rightarrow> (case field ''source'' s of Some (JStr src) \<Rightarrow> src | _ \<Rightarrow> [])
      | None \<Rightarrow> [])"

text \<open>A decimal numeral, as \<open>limit: "2"\<close>; \<open>None\<close> for anything else.\<close>

fun digits_value :: "string \<Rightarrow> nat \<Rightarrow> nat option" where
  "digits_value [] acc = Some acc"
| "digits_value (c # cs) acc =
     (if (48 :: nat) \<le> of_char c \<and> of_char c \<le> (57 :: nat)
      then digits_value cs (10 * acc + (of_char c - 48))
      else None)"

definition retry_limit :: "json \<Rightarrow> nat option" where
  "retry_limit t =
     (case field ''retryStrategy'' t of
        Some rs \<Rightarrow>
          (case field ''limit'' rs of
             Some (JStr s) \<Rightarrow> (if s = [] then None else digits_value s 0)
           | Some (JInt i) \<Rightarrow> (if 0 \<le> i then Some (nat i) else None)
           | _ \<Rightarrow> None)
      | None \<Rightarrow> None)"

definition has_capped_backoff :: "json \<Rightarrow> bool" where
  "has_capped_backoff t =
     (case field ''retryStrategy'' t of
        Some rs \<Rightarrow>
          (case field ''backoff'' rs of
             Some b \<Rightarrow>
               field ''duration'' b \<noteq> None \<and> field ''factor'' b \<noteq> None \<and>
               field ''maxDuration'' b \<noteq> None
           | None \<Rightarrow> False)
      | None \<Rightarrow> False)"

text \<open>
  A script applies idempotently when what it hands to \<open>kubectl apply\<close> is rendered by a
  client-side dry run (\<open>kubectl create ... --dry-run=client -o yaml | kubectl apply -f -\<close>,
  which creates the object or leaves it as it is).  A script that runs \<open>kubectl apply\<close>
  with no such dry run is the non-idempotent apply.
\<close>

definition non_idempotent_apply :: "string \<Rightarrow> bool" where
  "non_idempotent_apply src = (sublist ''kubectl apply'' src \<and> \<not> sublist ''--dry-run=client'' src)"

text \<open>The retry policy of every step template of a document, as a table.\<close>

definition step_policies :: "json \<Rightarrow> (string \<times> nat option \<times> bool \<times> string) list" where
  "step_policies doc =
     map (\<lambda>t. (template_name t, retry_limit t, has_capped_backoff t, script_source t))
       (step_templates doc)"

section \<open>Properties of validate_parameters\<close>

lemma strip_Nil: "strip [] = []"
  by (simp add: strip_def)

lemma validate_loop_filter:
  "validate_loop required provided ms es =
     (ms @ filter (is_missing provided) required, es @ filter (is_blank provided) required)"
proof (induction required arbitrary: ms es)
  case Nil
  show ?case by simp
next
  case (Cons p ps)
  show ?case
  proof (cases "provided p")
    case None
    then show ?thesis by (simp add: Cons.IH is_missing_def is_blank_def)
  next
    case (Some v)
    then show ?thesis by (auto simp: Cons.IH is_missing_def is_blank_def strip_Nil)
  qed
qed

lemma sublist_join:
  "x \<in> set xs \<Longrightarrow> sublist x (join sep xs)"
proof (induction sep xs rule: join.induct)
  case (1 sep)
  then show ?case by simp
next
  case (2 sep y)
  then show ?case by simp
next
  case (3 sep y z zs)
  show ?case
  proof (cases "x = y")
    case True
    then show ?thesis by (simp add: sublist_append_rightI)
  next
    case False
    with 3 have "sublist x (join sep (z # zs))" by simp
    then show ?thesis by (auto simp: sublist_append)
  qed
qed
text \<open>
  Claim C1.  \<open>validate_parameters\<close> succeeds exactly when no required name is absent from
  \<open>provided\<close> and none is present but blank after trimming.  Otherwise it fails with one
  \<open>ValidationError\<close> whose message is built from all the absent names (under
  "Missing required parameters") and all the blank names (under "Empty required
  parameters") together, each in the order of \<open>required\<close>; every such name occurs in the
  message.  The loop never stops at the first violation.
\<close>

theorem validate_parameters_reports_all:
  "(filter (is_missing provided) required = [] \<and> filter (is_blank provided) required = []
      \<longrightarrow> validate_parameters required provided = Inr True) \<and>
   (filter (is_missing provided) required \<noteq> [] \<or> filter (is_blank provided) required \<noteq> []
      \<longrightarrow> (\<exists>msg.
            validate_parameters required provided = Inl (ValidationError msg) \<and>
            msg = join ''. '' (error_parts (filter (is_missing provided) required)
                                           (filter (is_blank provided) required)) \<and>
            (filter (is_missing provided) required \<noteq> [] \<longrightarrow>
               sublist (''Missing required parameters: '' @
                        join '', '' (filter (is_missing provided) required)) msg) \<and>
            (filter (is_blank provided) required \<noteq> [] \<longrightarrow>
               sublist (''Empty required parameters: '' @
                        join '', '' (filter (is_blank provided) required)) msg) \<and>
            (\<forall>p \<in> set required. is_missing provided p \<or> is_blank provided p \<longrightarrow> sublist p msg)))"
proof -
  let ?ms = "filter (is_missing provided) required"
  let ?es = "filter (is_blank provided) required"
  let ?msg = "join ''. '' (error_parts ?ms ?es)"
  have ok: "?ms = [] \<and> ?es = [] \<longrightarrow> validate_parameters required provided = Inr True"
    by (simp add: validate_parameters_def validate_loop_filter)
  have bad: "validate_parameters required provided = Inl (ValidationError ?msg)"
    if "?ms \<noteq> [] \<or> ?es \<noteq> []"
    using that by (auto simp: validate_parameters_def validate_loop_filter)
  have part_m: "sublist (''Missing required parameters: '' @ join '', '' ?ms) ?msg" if "?ms \<noteq> []"
    by (rule sublist_join) (simp add: error_parts_def that)
  have part_e: "sublist (''Empty required parameters: '' @ join '', '' ?es) ?msg" if "?es \<noteq> []"
    by (rule sublist_join) (simp add: error_parts_def that)
  have named: "sublist p ?msg" if p: "p \<in> set required" "is_missing provided p \<or> is_blank provided p" for p
  proof (cases "is_missing provided p")
    case True
    with p have in_ms: "p \<in> set ?ms" by simp
    then have "sublist p (join '', '' ?ms)" by (rule sublist_join)
    then have "sublist p (''Missing required parameters: '' @ join '', '' ?ms)"
      by (simp only: sublist_append) blast
    moreover from in_ms have "?ms \<noteq> []" by (metis empty_iff empty_set)
    ultimately show ?thesis using part_m sublist_order.order.trans by blast
  next
    case False
    with p have in_es: "p \<in> set ?es" by simp
    then have "sublist p (join '', '' ?es)" by (rule sublist_join)
    then have "sublist p (''Empty required parameters: '' @ join '', '' ?es)"
      by (simp only: sublist_append) blast
    moreover from in_es have "?es \<noteq> []" by (metis empty_iff empty_set)
    ultimately show ?thesis using part_e sublist_order.order.trans by blast
  qed
  from ok bad part_m part_e named show ?thesis by blast
qed

text \<open>
  The three examples of the specification, read off the theorem:
  \<open>validate(["a","b"], {"a":"","c":"x"})\<close> names \<open>a\<close> empty and \<open>b\<close> missing in one failure,
  \<open>validate(["a","b"], {"a":"1"})\<close> names only \<open>b\<close>, and \<open>validate(["a"], {"a":"  "})\<close> names
  \<open>a\<close> as empty.
\<close>

theorem validate_parameters_reports_all_witness:
  "validate_parameters [''a'', ''b''] [''a'' \<mapsto> '''', ''c'' \<mapsto> ''x''] =
     Inl (ValidationError ''Missing required parameters: b. Empty required parameters: a'') \<and>
   validate_parameters [''a'', ''b''] [''a'' \<mapsto> ''1''] =
     Inl (ValidationError ''Missing required parameters: b'') \<and>
   validate_parameters [''a''] [''a'' \<mapsto> ''  ''] =
     Inl (ValidationError ''Empty required parameters: a'') \<and>
   validate_parameters [''a''] [''a'' \<mapsto> ''1'', ''b'' \<mapsto> ''2''] = Inr True"
  using validate_parameters_reports_all [of "[''a'' \<mapsto> '''', ''c'' \<mapsto> ''x'']" "[''a'', ''b'']"]
        validate_parameters_reports_all [of "[''a'' \<mapsto> ''1'']" "[''a'', ''b'']"]
        validate_parameters_reports_all [of "[''a'' \<mapsto> ''  '']" "[''a'']"]
        validate_parameters_reports_all [of "[''a'' \<mapsto> ''1'', ''b'' \<mapsto> ''2'']" "[''a'']"]
  by (simp add: is_missing_def is_blank_def strip_def py_isspace_def error_parts_def)


section \<open>Properties of get_workflow_status\<close>

lemma decode_node_dict:
  "decode_node fromisoformat (node_id, JObj nd) =
     Inr \<lparr> node_name = py_get nd ''name'' (JStr node_id),
           display_name = py_get nd ''displayName'' (py_get nd ''name'' (JStr node_id)),
           node_type = py_get nd ''type'' (JStr ''Unknown''),
           node_phase = py_get nd ''phase'' (JStr ''Unknown''),
           node_message = py_get nd ''message'' (JStr []),
           node_started_at = parse_timestamp fromisoformat nd ''startedAt'',
           node_finished_at = parse_timestamp fromisoformat nd ''finishedAt'' \<rparr>"
  by (simp add: decode_node_def)

lemma decode_nodes_Inr:
  "decode_nodes fromisoformat items = Inr ns \<Longrightarrow>
     length ns = length items \<and>
     (\<forall>j < length items. decode_node fromisoformat (items ! j) = Inr (ns ! j))"
proof (induction items arbitrary: ns)
  case Nil
  then show ?case by simp
next
  case (Cons item items)
  from Cons.prems obtain n ns' where
    n: "decode_node fromisoformat item = Inr n" and
    ns': "decode_nodes fromisoformat items = Inr ns'" and
    eq: "ns = n # ns'"
    by (auto split: sum.splits)
  from Cons.IH [OF ns'] have
    len: "length ns' = length items" and
    each: "\<forall>j < length items. decode_node fromisoformat (items ! j) = Inr (ns' ! j)"
    by simp_all
  show ?case
  proof (intro conjI allI impI)
    show "length ns = length (item # items)" using eq len by simp
  next
    fix j assume "j < length (item # items)"
    then show "decode_node fromisoformat ((item # items) ! j) = Inr (ns ! j)"
      using n each eq by (cases j) simp_all
  qed
qed

lemma decode_nodes_dicts:
  "\<forall>item \<in> set items. \<exists>nd. snd item = JObj nd \<Longrightarrow> \<exists>ns. decode_nodes fromisoformat items = Inr ns"
proof (induction items)
  case Nil
  show ?case by simp
next
  case (Cons item items)
  then obtain ns where ns: "decode_nodes fromisoformat items = Inr ns" by auto
  from Cons.prems obtain node_id nd where "item = (node_id, JObj nd)"
    by (cases item) auto
  then show ?case using ns by (simp add: decode_node_dict)
qed

lemma parse_timestamp_unparsable:
  "map_of d key = Some (JStr s) \<Longrightarrow> fromisoformat (replace_Z s) = None \<Longrightarrow>
     parse_timestamp fromisoformat d key = None"
  by (simp add: parse_timestamp_def)

lemma get_workflow_status_decodes:
  assumes "get_object workflow_name = Inr workflow"
    and "py_get workflow ''status'' (JObj []) = JObj status"
    and "py_get status ''nodes'' (JObj []) = JObj node_items"
    and "py_get workflow ''metadata'' (JObj []) = JObj metadata"
    and "decode_nodes fromisoformat node_items = Inr ns"
  shows "get_workflow_status fromisoformat self_namespace get_object workflow_name =
     Inr \<lparr> name = py_get metadata ''name'' (JStr workflow_name),
           namespace = py_get metadata ''namespace'' (JStr self_namespace),
           phase = py_get status ''phase'' (JStr ''Unknown''),
           started_at = parse_timestamp fromisoformat status ''startedAt'',
           finished_at = parse_timestamp fromisoformat status ''finishedAt'',
           progress = py_get status ''progress'' (JStr ''0/0''),
           message = py_get status ''message'' (JStr []),
           nodes = ns \<rparr>"
  using assms by (simp add: get_workflow_status_def decode_workflow_def)

text \<open>
  Claim C4.  When the workflow object decodes at all (its status, its node map and every
  node are dictionaries), a node whose \<open>startedAt\<close> or \<open>finishedAt\<close> is a string that
  \<open>fromisoformat\<close> rejects is returned with that time stamp \<open>None\<close>; its other time stamp
  and its name, display name, type, phase and message are what they are without it, every
  other node is decoded as usual, and \<open>get_workflow_status\<close> returns the snapshot.
\<close>

theorem unparsable_timestamp_degrades:
  assumes api: "get_object workflow_name = Inr workflow"
    and st: "map_of workflow ''status'' = Some (JObj status)"
    and md: "py_get workflow ''metadata'' (JObj []) = JObj metadata"
    and nodes: "map_of status ''nodes'' = Some (JObj node_items)"
    and dicts: "\<forall>item \<in> set node_items. \<exists>d. snd item = JObj d"
    and i: "i < length node_items" "node_items ! i = (node_id, JObj nd)"
    and key: "key = ''startedAt'' \<or> key = ''finishedAt''"
    and bad: "map_of nd key = Some (JStr s)" "fromisoformat (replace_Z s) = None"
  shows "\<exists>snap.
     get_workflow_status fromisoformat self_namespace get_object workflow_name = Inr snap \<and>
     length (nodes snap) = length node_items \<and>
     (key = ''startedAt'' \<longrightarrow>
        node_started_at (nodes snap ! i) = None \<and>
        node_finished_at (nodes snap ! i) = parse_timestamp fromisoformat nd ''finishedAt'') \<and>
     (key = ''finishedAt'' \<longrightarrow>
        node_finished_at (nodes snap ! i) = None \<and>
        node_started_at (nodes snap ! i) = parse_timestamp fromisoformat nd ''startedAt'') \<and>
     node_name (nodes snap ! i) = py_get nd ''name'' (JStr node_id) \<and>
     display_name (nodes snap ! i) = py_get nd ''displayName'' (py_get nd ''name'' (JStr node_id)) \<and>
     node_type (nodes snap ! i) = py_get nd ''type'' (JStr ''Unknown'') \<and>
     node_phase (nodes snap ! i) = py_get nd ''phase'' (JStr ''Unknown'') \<and>
     node_message (nodes snap ! i) = py_get nd ''message'' (JStr []) \<and>
     (\<forall>j < length node_items. decode_node fromisoformat (node_items ! j) = Inr (nodes snap ! j)) \<and>
     phase snap = py_get status ''phase'' (JStr ''Unknown'') \<and>
     progress snap = py_get status ''progress'' (JStr ''0/0'') \<and>
     message snap = py_get status ''message'' (JStr [])"
proof -
  from dicts obtain ns where ns: "decode_nodes fromisoformat node_items = Inr ns"
    using decode_nodes_dicts by blast
  from decode_nodes_Inr [OF ns] have
    len: "length ns = length node_items" and
    each: "\<forall>j < length node_items. decode_node fromisoformat (node_items ! j) = Inr (ns ! j)"
    by simp_all
  from each i have node: "decode_node fromisoformat (node_id, JObj nd) = Inr (ns ! i)"
    by metis
  have none: "parse_timestamp fromisoformat nd key = None"
    using bad by (rule parse_timestamp_unparsable)
  let ?snap = "\<lparr> name = py_get metadata ''name'' (JStr workflow_name),
           namespace = py_get metadata ''namespace'' (JStr self_namespace),
           phase = py_get status ''phase'' (JStr ''Unknown''),
           started_at = parse_timestamp fromisoformat status ''startedAt'',
           finished_at = parse_timestamp fromisoformat status ''finishedAt'',
           progress = py_get status ''progress'' (JStr ''0/0''),
           message = py_get status ''message'' (JStr []),
           nodes = ns \<rparr>"
  have "get_workflow_status fromisoformat self_namespace get_object workflow_name = Inr ?snap"
    using api st md nodes ns
    by (intro get_workflow_status_decodes) (simp_all add: py_get_def)
  moreover have "ns ! i = \<lparr> node_name = py_get nd ''name'' (JStr node_id),
           display_name = py_get nd ''displayName'' (py_get nd ''name'' (JStr node_id)),
           node_type = py_get nd ''type'' (JStr ''Unknown''),
           node_phase = py_get nd ''phase'' (JStr ''Unknown''),
           node_message = py_get nd ''message'' (JStr []),
           node_started_at = parse_timestamp fromisoformat nd ''startedAt'',
           node_finished_at = parse_timestamp fromisoformat nd ''finishedAt'' \<rparr>"
    using node by (simp add: decode_node_dict)
  ultimately show ?thesis using len each none by auto
qed

text \<open>
  A snapshot of two nodes: the second has \<open>startedAt = "not-a-date"\<close> and comes back with
  no start time and its other fields intact; the first keeps its parsed start time.
\<close>

theorem unparsable_timestamp_degrades_witness:
  "\<exists>snap.
     get_workflow_status
       (\<lambda>s. if s = ''2024-05-01T10:00:00+00:00'' then Some (0 :: nat) else None) ''argo''
       (\<lambda>n. Inr [(''metadata'', JObj [(''name'', JStr ''wf-1'')]),
                  (''status'', JObj [(''phase'', JStr ''Running''),
                     (''nodes'', JObj
                        [(''wf-1-a'', JObj [(''name'', JStr ''wf-1.a''), (''type'', JStr ''Pod''),
                                          (''startedAt'', JStr ''2024-05-01T10:00:00Z'')]),
                         (''wf-1-b'', JObj [(''name'', JStr ''wf-1.b''), (''type'', JStr ''Pod''),
                                          (''phase'', JStr ''Running''),
                                          (''startedAt'', JStr ''not-a-date''),
                                          (''finishedAt'', JNull)])])])])
       ''wf-1'' = Inr snap \<and>
     length (nodes snap) = 2 \<and>
     node_started_at (nodes snap ! 0) = Some 0 \<and>
     node_started_at (nodes snap ! 1) = None \<and>
     node_finished_at (nodes snap ! 1) = None \<and>
     node_name (nodes snap ! 1) = JStr ''wf-1.b'' \<and>
     display_name (nodes snap ! 1) = JStr ''wf-1.b'' \<and>
     node_type (nodes snap ! 1) = JStr ''Pod'' \<and>
     node_phase (nodes snap ! 1) = JStr ''Running'' \<and>
     node_message (nodes snap ! 1) = JStr [] \<and>
     phase snap = JStr ''Running''"
proof -
  let ?f = "\<lambda>s. if s = ''2024-05-01T10:00:00+00:00'' then Some (0 :: nat) else None"
  let ?a = "[(''name'', JStr ''wf-1.a''), (''type'', JStr ''Pod''),
             (''startedAt'', JStr ''2024-05-01T10:00:00Z'')]"
  let ?b = "[(''name'', JStr ''wf-1.b''), (''type'', JStr ''Pod''), (''phase'', JStr ''Running''),
             (''startedAt'', JStr ''not-a-date''), (''finishedAt'', JNull)]"
  let ?items = "[(''wf-1-a'', JObj ?a), (''wf-1-b'', JObj ?b)]"
  let ?status = "[(''phase'', JStr ''Running''), (''nodes'', JObj ?items)]"
  let ?m = "[(''name'', JStr ''wf-1'')]"
  let ?w = "[(''metadata'', JObj ?m), (''status'', JObj ?status)]"
  let ?g = "\<lambda>n :: string. Inr ?w :: api_failure + dict"
  from unparsable_timestamp_degrades
         [where fromisoformat = ?f and self_namespace = "''argo''" and workflow_name = "''wf-1''"
            and get_object = ?g and workflow = ?w and status = ?status and metadata = ?m
            and node_items = ?items and i = 1 and node_id = "''wf-1-b''" and nd = ?b
            and key = "''startedAt''" and s = "''not-a-date''"]
  obtain snap where
    snap: "get_workflow_status ?f ''argo'' ?g ''wf-1'' = Inr snap" and
    len: "length (nodes snap) = 2" and
    started: "node_started_at (nodes snap ! 1) = None" and
    finished: "node_finished_at (nodes snap ! 1) = parse_timestamp ?f ?b ''finishedAt''" and
    rest: "node_name (nodes snap ! 1) = py_get ?b ''name'' (JStr ''wf-1-b'')"
          "display_name (nodes snap ! 1) = py_get ?b ''displayName'' (py_get ?b ''name'' (JStr ''wf-1-b''))"
          "node_type (nodes snap ! 1) = py_get ?b ''type'' (JStr ''Unknown'')"
          "node_phase (nodes snap ! 1) = py_get ?b ''phase'' (JStr ''Unknown'')"
          "node_message (nodes snap ! 1) = py_get ?b ''message'' (JStr [])" and
    each: "\<forall>j < 2. decode_node ?f (?items ! j) = Inr (nodes snap ! j)" and
    ph: "phase snap = py_get ?status ''phase'' (JStr ''Unknown'')"
    by (auto simp: py_get_def replace_Z_def)
  have first: "node_started_at (nodes snap ! 0) = Some 0"
    using each [rule_format, of 0, symmetric]
    by (simp add: decode_node_def parse_timestamp_def replace_Z_def)
  show ?thesis
    using snap len started finished rest first ph
    by (intro exI [of _ snap]) (simp add: py_get_def parse_timestamp_def)
qed


text \<open>
  Claim C10.  For a workflow object whose \<open>status\<close> is absent, or is a dictionary that
  lacks \<open>phase\<close>, \<open>progress\<close>, \<open>message\<close> or \<open>nodes\<close>, \<open>get_workflow_status\<close> returns a
  snapshot in which each missing field has its default: phase \<open>Unknown\<close>, progress \<open>0/0\<close>,
  the empty message, the empty node list.  The phase \<open>Unknown\<close> is none of the five
  values of the enumeration.
\<close>

theorem missing_status_fields_default:
  assumes api: "get_object workflow_name = Inr workflow"
    and md: "py_get workflow ''metadata'' (JObj []) = JObj metadata"
    and st: "py_get workflow ''status'' (JObj []) = JObj status"
    and nd: "map_of status ''nodes'' = None \<or>
             (\<exists>items. map_of status ''nodes'' = Some (JObj items) \<and>
                      (\<forall>item \<in> set items. \<exists>d. snd item = JObj d))"
  shows "\<exists>snap.
     get_workflow_status fromisoformat self_namespace get_object workflow_name = Inr snap \<and>
     (map_of status ''phase'' = None \<longrightarrow>
        phase snap = JStr ''Unknown'' \<and> phase snap \<notin> phase_enumeration) \<and>
     (map_of status ''progress'' = None \<longrightarrow> progress snap = JStr ''0/0'') \<and>
     (map_of status ''message'' = None \<longrightarrow> message snap = JStr []) \<and>
     (map_of status ''nodes'' = None \<longrightarrow> nodes snap = []) \<and>
     (map_of workflow ''status'' = None \<longrightarrow>
        phase snap = JStr ''Unknown'' \<and> progress snap = JStr ''0/0'' \<and>
        message snap = JStr [] \<and> nodes snap = [] \<and>
        started_at snap = None \<and> finished_at snap = None)"
proof -
  obtain node_items where items: "py_get status ''nodes'' (JObj []) = JObj node_items"
    and dicts: "\<forall>item \<in> set node_items. \<exists>d. snd item = JObj d"
    and absent: "map_of status ''nodes'' = None \<longrightarrow> node_items = []"
    using nd by (auto simp: py_get_def)
  from dicts obtain ns where ns: "decode_nodes fromisoformat node_items = Inr ns"
    using decode_nodes_dicts by blast
  have empty: "map_of status ''nodes'' = None \<longrightarrow> ns = []"
    using absent ns by auto
  have no_status: "map_of workflow ''status'' = None \<longrightarrow> status = []"
    using st by (auto simp: py_get_def)
  have eq: "get_workflow_status fromisoformat self_namespace get_object workflow_name =
     Inr \<lparr> name = py_get metadata ''name'' (JStr workflow_name),
           namespace = py_get metadata ''namespace'' (JStr self_namespace),
           phase = py_get status ''phase'' (JStr ''Unknown''),
           started_at = parse_timestamp fromisoformat status ''startedAt'',
           finished_at = parse_timestamp fromisoformat status ''finishedAt'',
           progress = py_get status ''progress'' (JStr ''0/0''),
           message = py_get status ''message'' (JStr []),
           nodes = ns \<rparr>"
    using api st items md ns by (rule get_workflow_status_decodes)
  show ?thesis
    unfolding eq using empty no_status
    by (auto simp: py_get_def parse_timestamp_def phase_enumeration_def)
qed

text \<open>The empty workflow object: every default at once, and a phase outside the enumeration.\<close>

theorem missing_status_fields_default_witness:
  "\<exists>snap.
     get_workflow_status (\<lambda>s. None :: nat option) ''argo'' (\<lambda>n. Inr []) ''wf-1'' = Inr snap \<and>
     name snap = JStr ''wf-1'' \<and> namespace snap = JStr ''argo'' \<and>
     phase snap = JStr ''Unknown'' \<and> phase snap \<notin> phase_enumeration \<and>
     progress snap = JStr ''0/0'' \<and> message snap = JStr [] \<and> nodes snap = [] \<and>
     started_at snap = None \<and> finished_at snap = None"
proof -
  let ?f = "\<lambda>s :: string. None :: nat option"
  let ?g = "\<lambda>n :: string. Inr [] :: api_failure + dict"
  from missing_status_fields_default
         [where fromisoformat = ?f and self_namespace = "''argo''" and workflow_name = "''wf-1''"
            and get_object = ?g and workflow = "[]" and status = "[]" and metadata = "[]"]
  obtain snap where
    snap: "get_workflow_status ?f ''argo'' ?g ''wf-1'' = Inr snap" and
    fields: "phase snap = JStr ''Unknown''" "phase snap \<notin> phase_enumeration"
            "progress snap = JStr ''0/0''" "message snap = JStr []" "nodes snap = []"
            "started_at snap = None" "finished_at snap = None"
    by (auto simp: py_get_def)
  have "name snap = JStr ''wf-1'' \<and> namespace snap = JStr ''argo''"
    using snap by (auto simp: get_workflow_status_def decode_workflow_def py_get_def)
  with snap fields show ?thesis by blast
qed

section \<open>Properties of the log functions\<close>

lemma set_dicts_of: "set (dicts_of items) = {(k, d). (k, JObj d) \<in> set items}"
  by (induction items rule: dicts_of.induct) auto

lemma log_block_Inr:
  "read_pod_log (pod_name_of item) = Inr pod_logs \<Longrightarrow>
     log_block repr read_pod_log item =
       [''=== Logs from step: '' @ py_str repr (display_name_of item) @ '' ==='', pod_logs, []]"
  by (simp add: log_block_def)

lemma log_block_ApiException:
  "read_pod_log (pod_name_of item) = Inl (ApiException status reason) \<Longrightarrow>
     log_block repr read_pod_log item =
       [if status = 404
        then ''=== Step '' @ py_str repr (display_name_of item) @
             '': Pod not found or not started yet ===''
        else ''=== Step '' @ py_str repr (display_name_of item) @
             '': Failed to retrieve logs: '' @ reason @ '' ==='',
        []]"
  by (simp add: log_block_def)

lemma select_nodes_Inr:
  "select_nodes keep items = Inr sel \<Longrightarrow>
     sel = filter (\<lambda>(k, d). keep d) (dicts_of items) \<and> (\<forall>item \<in> set items. \<exists>d. snd item = JObj d)"
proof (induction items arbitrary: sel)
  case Nil
  then show ?case by simp
next
  case (Cons item items)
  obtain k v where item: "item = (k, v)" by (cases item)
  with Cons.prems obtain d sel' where v: "v = JObj d"
    and sel': "select_nodes keep items = Inr sel'"
    and sel: "sel = (if keep d then (k, d) # sel' else sel')"
    by (auto split: json.splits sum.splits)
  from Cons.IH [OF sel'] show ?case
    using item v sel by simp
qed

lemma select_nodes_dicts:
  "\<forall>item \<in> set items. \<exists>d. snd item = JObj d \<Longrightarrow>
     select_nodes keep items = Inr (filter (\<lambda>(k, d). keep d) (dicts_of items))"
proof (induction items)
  case Nil
  show ?case by simp
next
  case (Cons item items)
  from Cons.prems obtain k d where "item = (k, JObj d)" by (cases item) auto
  with Cons show ?case by simp
qed

lemma retrieve_logs_blocks:
  "\<forall>item \<in> set items. \<forall>msg. read_pod_log (pod_name_of item) \<noteq> Inl (OtherException msg) \<Longrightarrow>
     retrieve_logs repr read_pod_log items logs =
       Inr (logs @ concat (map (log_block repr read_pod_log) items))"
proof (induction items arbitrary: logs)
  case Nil
  show ?case by simp
next
  case (Cons item items)
  then have IH: "\<And>logs. retrieve_logs repr read_pod_log items logs =
       Inr (logs @ concat (map (log_block repr read_pod_log) items))"
    by simp
  from Cons.prems have no: "\<forall>msg. read_pod_log (pod_name_of item) \<noteq> Inl (OtherException msg)"
    by simp
  show ?case
  proof (cases "read_pod_log (pod_name_of item)")
    case (Inr pod_logs)
    then show ?thesis by (simp add: IH log_block_Inr)
  next
    case (Inl failure)
    with no obtain status reason where "failure = ApiException status reason"
      by (cases failure) auto
    with Inl show ?thesis by (simp add: IH log_block_ApiException)
  qed
qed

lemma retrieve_logs_aborts:
  "read_pod_log (pod_name_of item) = Inl (OtherException msg) \<Longrightarrow>
     \<forall>x \<in> set before. \<forall>m. read_pod_log (pod_name_of x) \<noteq> Inl (OtherException m) \<Longrightarrow>
     retrieve_logs repr read_pod_log (before @ item # after) logs = Inl msg"
proof (induction before arbitrary: logs)
  case Nil
  then show ?case by simp
next
  case (Cons x before)
  then have IH: "\<And>logs. retrieve_logs repr read_pod_log (before @ item # after) logs = Inl msg"
    by simp
  from Cons.prems have no: "\<forall>m. read_pod_log (pod_name_of x) \<noteq> Inl (OtherException m)"
    by simp
  show ?case
  proof (cases "read_pod_log (pod_name_of x)")
    case (Inr pod_logs)
    then show ?thesis by (simp add: IH)
  next
    case (Inl failure)
    with no obtain status reason where "failure = ApiException status reason"
      by (cases failure) auto
    with Inl show ?thesis by (simp add: IH)
  qed
qed

lemma sublist_join_block:
  assumes "item \<in> set items" and "line \<in> set (block item)"
  shows "sublist line (join sep (concat (map block items)))"
proof -
  from assms have "line \<in> set (concat (map block items))" by auto
  then show ?thesis by (rule sublist_join)
qed

lemma get_workflow_logs_decodes:
  assumes "get_object workflow_name = Inr workflow"
    and "py_get workflow ''status'' (JObj []) = JObj status"
    and "py_get status ''nodes'' (JObj []) = JObj node_items"
    and "log_targets step node_items = Inr target_nodes"
  shows "get_workflow_logs repr self_namespace get_object read_pod_log workflow_name step =
     (case retrieve_logs repr read_pod_log target_nodes [] of
        Inl msg \<Rightarrow> Inl (KubernetesAPIError (''Unexpected error getting workflow logs: '' @ msg))
      | Inr logs \<Rightarrow> Inr (if logs \<noteq> [] then join ''\<newline>'' logs else ''No logs available''))"
  using assms by (simp add: get_workflow_logs_def collect_logs_def split: sum.splits)

text \<open>
  Claim C5 (as amended).  When the targets resolve and every per-unit lookup either
  returns or raises \<open>ApiException\<close>, \<open>get_workflow_logs\<close> returns a text: it contains the
  header and the log content of every unit whose lookup returned, the line
  "Pod not found or not started yet" for every unit whose lookup raised status 404, and
  the line "Failed to retrieve logs" with the reason for every other status.  None of
  these per-unit failures makes the call raise.
\<close>

theorem per_unit_api_failure_yields_placeholder:
  assumes api: "get_object workflow_name = Inr workflow"
    and st: "py_get workflow ''status'' (JObj []) = JObj status"
    and nodes: "py_get status ''nodes'' (JObj []) = JObj node_items"
    and targets: "log_targets step node_items = Inr target_nodes"
    and api_only: "\<forall>item \<in> set target_nodes. \<forall>msg.
                     read_pod_log (pod_name_of item) \<noteq> Inl (OtherException msg)"
  shows "\<exists>text.
     get_workflow_logs repr self_namespace get_object read_pod_log workflow_name step = Inr text \<and>
     (\<forall>item \<in> set target_nodes.
        (\<forall>pod_logs. read_pod_log (pod_name_of item) = Inr pod_logs \<longrightarrow>
           sublist (''=== Logs from step: '' @ py_str repr (display_name_of item) @ '' ==='') text \<and>
           sublist pod_logs text) \<and>
        (\<forall>reason. read_pod_log (pod_name_of item) = Inl (ApiException 404 reason) \<longrightarrow>
           sublist (''=== Step '' @ py_str repr (display_name_of item) @
                    '': Pod not found or not started yet ==='') text) \<and>
        (\<forall>status reason. read_pod_log (pod_name_of item) = Inl (ApiException status reason) \<and>
           status \<noteq> 404 \<longrightarrow>
           sublist (''=== Step '' @ py_str repr (display_name_of item) @
                    '': Failed to retrieve logs: '' @ reason @ '' ==='') text))"
proof -
  let ?logs = "concat (map (log_block repr read_pod_log) target_nodes)"
  let ?text = "if ?logs \<noteq> [] then join ''\<newline>'' ?logs else ''No logs available''"
  have logs: "retrieve_logs repr read_pod_log target_nodes [] = Inr ?logs"
    using retrieve_logs_blocks [OF api_only, of repr "[]"] by simp
  have "get_workflow_logs repr self_namespace get_object read_pod_log workflow_name step =
     (case retrieve_logs repr read_pod_log target_nodes [] of
        Inl msg \<Rightarrow> Inl (KubernetesAPIError (''Unexpected error getting workflow logs: '' @ msg))
      | Inr logs \<Rightarrow> Inr (if logs \<noteq> [] then join ''\<newline>'' logs else ''No logs available''))"
    using api st nodes targets by (rule get_workflow_logs_decodes)
  with logs have res:
    "get_workflow_logs repr self_namespace get_object read_pod_log workflow_name step = Inr ?text"
    by simp
  have line: "sublist l ?text" if "item \<in> set target_nodes" "l \<in> set (log_block repr read_pod_log item)"
    for item l
  proof -
    from that have "l \<in> set ?logs" by auto
    then have "sublist l (join ''\<newline>'' ?logs)" by (rule sublist_join)
    moreover from \<open>l \<in> set ?logs\<close> have "?logs \<noteq> []" by (metis empty_iff empty_set)
    ultimately show ?thesis by simp
  qed
  show ?thesis
  proof (intro exI [of _ ?text] conjI ballI allI impI)
    show "get_workflow_logs repr self_namespace get_object read_pod_log workflow_name step = Inr ?text"
      by (rule res)
  next
    fix item pod_logs
    assume "item \<in> set target_nodes" "read_pod_log (pod_name_of item) = Inr pod_logs"
    then show "sublist (''=== Logs from step: '' @ py_str repr (display_name_of item) @ '' ==='') ?text"
      by (intro line [of item]) (simp_all add: log_block_Inr log_block_ApiException)
  next
    fix item pod_logs
    assume "item \<in> set target_nodes" "read_pod_log (pod_name_of item) = Inr pod_logs"
    then show "sublist pod_logs ?text"
      by (intro line [of item]) (simp_all add: log_block_Inr log_block_ApiException)
  next
    fix item reason
    assume "item \<in> set target_nodes" "read_pod_log (pod_name_of item) = Inl (ApiException 404 reason)"
    then show "sublist (''=== Step '' @ py_str repr (display_name_of item) @
                    '': Pod not found or not started yet ==='') ?text"
      by (intro line [of item]) (simp_all add: log_block_Inr log_block_ApiException)
  next
    fix item status reason
    assume "item \<in> set target_nodes"
      "read_pod_log (pod_name_of item) = Inl (ApiException status reason) \<and> status \<noteq> 404"
    then show "sublist (''=== Step '' @ py_str repr (display_name_of item) @
                    '': Failed to retrieve logs: '' @ reason @ '' ==='') ?text"
      by (intro line [of item]) (simp_all add: log_block_Inr log_block_ApiException)
  qed
qed


text \<open>
  The example of the specification: two pod nodes, the first lookup raises not-found, the
  second returns \<open>hello\<close>.
\<close>

theorem per_unit_api_failure_yields_placeholder_witness:
  "\<exists>text.
     get_workflow_logs (\<lambda>v. []) ''argo''
       (\<lambda>n. Inr [(''status'', JObj [(''nodes'', JObj
          [(''wf-1-a'', JObj [(''displayName'', JStr ''step-a''), (''type'', JStr ''Pod'')]),
           (''wf-1-b'', JObj [(''displayName'', JStr ''step-b''), (''type'', JStr ''Pod'')])])])])
       (\<lambda>pod. if pod = JStr ''wf-1-a'' then Inl (ApiException 404 ''Not Found'') else Inr ''hello'')
       ''wf-1'' None = Inr text \<and>
     sublist ''hello'' text \<and>
     sublist ''=== Logs from step: step-b ==='' text \<and>
     sublist ''=== Step step-a: Pod not found or not started yet ==='' text"
proof -
  let ?a = "[(''displayName'', JStr ''step-a''), (''type'', JStr ''Pod'')]"
  let ?b = "[(''displayName'', JStr ''step-b''), (''type'', JStr ''Pod'')]"
  let ?items = "[(''wf-1-a'', JObj ?a), (''wf-1-b'', JObj ?b)]"
  let ?status = "[(''nodes'', JObj ?items)]"
  let ?w = "[(''status'', JObj ?status)]"
  let ?g = "\<lambda>n :: string. Inr ?w :: api_failure + dict"
  let ?r = "\<lambda>pod. if pod = JStr ''wf-1-a'' then Inl (ApiException 404 ''Not Found'') else Inr ''hello''"
  let ?targets = "[(''wf-1-a'', ?a), (''wf-1-b'', ?b)]"
  have "\<exists>text.
     get_workflow_logs (\<lambda>v. []) ''argo'' ?g ?r ''wf-1'' None = Inr text \<and>
     (\<forall>item \<in> set ?targets.
        (\<forall>pod_logs. ?r (pod_name_of item) = Inr pod_logs \<longrightarrow>
           sublist (''=== Logs from step: '' @ py_str (\<lambda>v. []) (display_name_of item) @ '' ==='') text \<and>
           sublist pod_logs text) \<and>
        (\<forall>reason. ?r (pod_name_of item) = Inl (ApiException 404 reason) \<longrightarrow>
           sublist (''=== Step '' @ py_str (\<lambda>v. []) (display_name_of item) @
                    '': Pod not found or not started yet ==='') text) \<and>
        (\<forall>status reason. ?r (pod_name_of item) = Inl (ApiException status reason) \<and>
           status \<noteq> 404 \<longrightarrow>
           sublist (''=== Step '' @ py_str (\<lambda>v. []) (display_name_of item) @
                    '': Failed to retrieve logs: '' @ reason @ '' ==='') text))"
    by (rule per_unit_api_failure_yields_placeholder
          [where workflow = ?w and status = ?status and node_items = ?items])
       (simp_all add: py_get_def log_targets_def is_pod_def pod_name_of_def)
  then obtain out where
    out: "get_workflow_logs (\<lambda>v. []) ''argo'' ?g ?r ''wf-1'' None = Inr out" and
    units: "\<forall>item \<in> set ?targets.
        (\<forall>pod_logs. ?r (pod_name_of item) = Inr pod_logs \<longrightarrow>
           sublist (''=== Logs from step: '' @ py_str (\<lambda>v. []) (display_name_of item) @ '' ==='') out \<and>
           sublist pod_logs out) \<and>
        (\<forall>reason. ?r (pod_name_of item) = Inl (ApiException 404 reason) \<longrightarrow>
           sublist (''=== Step '' @ py_str (\<lambda>v. []) (display_name_of item) @
                    '': Pod not found or not started yet ==='') out)"
    by blast
  from units have "sublist ''hello'' out"
    and "sublist ''=== Logs from step: step-b ==='' out"
    and "sublist ''=== Step step-a: Pod not found or not started yet ==='' out"
    by (simp_all add: pod_name_of_def display_name_of_def py_get_def py_str_def)
  with out show ?thesis by blast
qed

text \<open>
  Claim C5 as stated fails: the inner handler catches \<open>ApiException\<close> only.  With a third
  unit whose lookup raises another exception (a read time-out), the instance still has a
  not-found unit and a succeeding one, and the call raises \<open>KubernetesAPIError\<close>.
\<close>

theorem other_exception_aborts_log_retrieval:
  "get_workflow_logs (\<lambda>v. []) ''argo''
     (\<lambda>n. Inr [(''status'', JObj [(''nodes'', JObj
        [(''wf-1-a'', JObj [(''displayName'', JStr ''step-a''), (''type'', JStr ''Pod'')]),
         (''wf-1-b'', JObj [(''displayName'', JStr ''step-b''), (''type'', JStr ''Pod'')]),
         (''wf-1-c'', JObj [(''displayName'', JStr ''step-c''), (''type'', JStr ''Pod'')])])])])
     (\<lambda>pod. if pod = JStr ''wf-1-a'' then Inl (ApiException 404 ''Not Found'')
            else if pod = JStr ''wf-1-b'' then Inr ''hello''
            else Inl (OtherException ''Read timed out.''))
     ''wf-1'' None =
   Inl (KubernetesAPIError ''Unexpected error getting workflow logs: Read timed out.'')"
  by (simp add: get_workflow_logs_def collect_logs_def py_get_def log_targets_def is_pod_def
        pod_name_of_def)

lemma stream_workflow_logs_decodes:
  assumes "get_object workflow_name = Inr workflow"
    and "py_get workflow ''status'' (JObj []) = JObj status"
    and "py_get status ''nodes'' (JObj []) = JObj node_items"
    and "stream_targets step node_items = Inr target_nodes"
  shows "stream_workflow_logs repr get_object read_pod_stream workflow_name step =
           stream_units repr read_pod_stream target_nodes"
  using assms by (simp add: stream_workflow_logs_def)

lemma is_active_pod_is_pod: "is_active_pod d \<Longrightarrow> is_pod d"
  by (simp add: is_active_pod_def is_pod_def)

lemma is_active_pod_not_terminal:
  "is_active_pod d \<Longrightarrow> \<not> is_terminal (py_get d ''phase'' JNull)"
  by (auto simp: is_active_pod_def is_terminal_def py_get_def)

lemma terminal_pods_not_active:
  "\<forall>item \<in> set ds. is_pod (snd item) \<longrightarrow> is_terminal (py_get (snd item) ''phase'' JNull) \<Longrightarrow>
     filter (\<lambda>(k, d). is_active_pod d) ds = []"
  using is_active_pod_is_pod is_active_pod_not_terminal
  by (fastforce simp: filter_empty_conv)

lemma log_targets_subset:
  "log_targets step node_items = Inr sel \<Longrightarrow> set sel \<subseteq> set (dicts_of node_items)"
  by (auto simp: log_targets_def dest!: select_nodes_Inr split: option.splits if_splits)

lemma stream_targets_subset:
  "stream_targets step node_items = Inr sel \<Longrightarrow> set sel \<subseteq> set (dicts_of node_items)"
  by (auto simp: stream_targets_def dest!: select_nodes_Inr split: option.splits if_splits)

text \<open>
  Claim C9.  Without a step filter, \<open>stream_workflow_logs\<close> selects exactly the nodes of
  type \<open>Pod\<close> whose phase is \<open>Running\<close> or \<open>Pending\<close>, so no selected unit is in a terminal
  phase, while \<open>get_workflow_logs\<close> selects every node of type \<open>Pod\<close> whatever its phase.
  For an instance all of whose pod nodes are terminal, the unfiltered stream yields
  nothing and ends.
\<close>

theorem unfiltered_stream_selects_active_pods:
  assumes api: "get_object workflow_name = Inr workflow"
    and st: "py_get workflow ''status'' (JObj []) = JObj status"
    and nodes: "py_get status ''nodes'' (JObj []) = JObj node_items"
    and dicts: "\<forall>item \<in> set node_items. \<exists>d. snd item = JObj d"
  shows "stream_targets None node_items =
           Inr (filter (\<lambda>(k, d). map_of d ''type'' = Some (JStr ''Pod'') \<and>
                          (map_of d ''phase'' = Some (JStr ''Running'') \<or>
                           map_of d ''phase'' = Some (JStr ''Pending'')))
                  (dicts_of node_items)) \<and>
         log_targets None node_items =
           Inr (filter (\<lambda>(k, d). map_of d ''type'' = Some (JStr ''Pod'')) (dicts_of node_items)) \<and>
         (\<forall>targets. stream_targets None node_items = Inr targets \<longrightarrow>
            (\<forall>item \<in> set targets. \<not> is_terminal (py_get (snd item) ''phase'' JNull))) \<and>
         ((\<forall>item \<in> set (dicts_of node_items).
              is_pod (snd item) \<longrightarrow> is_terminal (py_get (snd item) ''phase'' JNull)) \<longrightarrow>
            stream_workflow_logs repr get_object read_pod_stream workflow_name None = ([], None))"
proof -
  have s: "stream_targets None node_items =
             Inr (filter (\<lambda>(k, d). is_active_pod d) (dicts_of node_items))"
    using dicts by (simp add: stream_targets_def select_nodes_dicts)
  have l: "log_targets None node_items = Inr (filter (\<lambda>(k, d). is_pod d) (dicts_of node_items))"
    using dicts by (simp add: log_targets_def select_nodes_dicts)
  have never: "\<not> is_terminal (py_get (snd item) ''phase'' JNull)"
    if "stream_targets None node_items = Inr targets" "item \<in> set targets" for targets item
    using that s is_active_pod_not_terminal by fastforce
  have silent: "stream_workflow_logs repr get_object read_pod_stream workflow_name None = ([], None)"
    if "\<forall>item \<in> set (dicts_of node_items).
          is_pod (snd item) \<longrightarrow> is_terminal (py_get (snd item) ''phase'' JNull)"
  proof -
    from that have "filter (\<lambda>(k, d). is_active_pod d) (dicts_of node_items) = []"
      by (rule terminal_pods_not_active)
    with s have "stream_targets None node_items = Inr []" by simp
    with api st nodes
    have "stream_workflow_logs repr get_object read_pod_stream workflow_name None =
            stream_units repr read_pod_stream []"
      by (rule stream_workflow_logs_decodes)
    then show ?thesis by simp
  qed
  have s': "stream_targets None node_items =
           Inr (filter (\<lambda>(k, d). map_of d ''type'' = Some (JStr ''Pod'') \<and>
                          (map_of d ''phase'' = Some (JStr ''Running'') \<or>
                           map_of d ''phase'' = Some (JStr ''Pending'')))
                  (dicts_of node_items))"
    using s by (simp add: is_active_pod_def)
  have l': "log_targets None node_items =
           Inr (filter (\<lambda>(k, d). map_of d ''type'' = Some (JStr ''Pod'')) (dicts_of node_items))"
    using l by (simp add: is_pod_def)
  from s' l' never silent show ?thesis by blast
qed

text \<open>
  An instance with a \<open>Steps\<close> node and two finished pods: the unfiltered stream is empty,
  the unfiltered log retrieval targets both pods.
\<close>

theorem unfiltered_stream_selects_active_pods_witness:
  "stream_workflow_logs (\<lambda>v. [])
     (\<lambda>n. Inr [(''status'', JObj [(''phase'', JStr ''Succeeded''), (''nodes'', JObj
        [(''wf-1'', JObj [(''displayName'', JStr ''wf-1''), (''type'', JStr ''Steps''),
                         (''phase'', JStr ''Succeeded'')]),
         (''wf-1-a'', JObj [(''displayName'', JStr ''step-a''), (''type'', JStr ''Pod''),
                           (''phase'', JStr ''Succeeded'')]),
         (''wf-1-b'', JObj [(''displayName'', JStr ''step-b''), (''type'', JStr ''Pod''),
                           (''phase'', JStr ''Failed'')])])])])
     (\<lambda>pod. Inr ([''line''], None)) ''wf-1'' None = ([], None) \<and>
   log_targets None
        [(''wf-1'', JObj [(''displayName'', JStr ''wf-1''), (''type'', JStr ''Steps''),
                         (''phase'', JStr ''Succeeded'')]),
         (''wf-1-a'', JObj [(''displayName'', JStr ''step-a''), (''type'', JStr ''Pod''),
                           (''phase'', JStr ''Succeeded'')]),
         (''wf-1-b'', JObj [(''displayName'', JStr ''step-b''), (''type'', JStr ''Pod''),
                           (''phase'', JStr ''Failed'')])] =
     Inr [(''wf-1-a'', [(''displayName'', JStr ''step-a''), (''type'', JStr ''Pod''),
                       (''phase'', JStr ''Succeeded'')]),
          (''wf-1-b'', [(''displayName'', JStr ''step-b''), (''type'', JStr ''Pod''),
                       (''phase'', JStr ''Failed'')])] \<and>
   stream_targets None
        [(''wf-1'', JObj [(''displayName'', JStr ''wf-1''), (''type'', JStr ''Steps''),
                         (''phase'', JStr ''Succeeded'')]),
         (''wf-1-a'', JObj [(''displayName'', JStr ''step-a''), (''type'', JStr ''Pod''),
                           (''phase'', JStr ''Succeeded'')]),
         (''wf-1-b'', JObj [(''displayName'', JStr ''step-b''), (''type'', JStr ''Pod''),
                           (''phase'', JStr ''Failed'')])] = Inr []"
proof -
  let ?items = "[(''wf-1'', JObj [(''displayName'', JStr ''wf-1''), (''type'', JStr ''Steps''),
                         (''phase'', JStr ''Succeeded'')]),
         (''wf-1-a'', JObj [(''displayName'', JStr ''step-a''), (''type'', JStr ''Pod''),
                           (''phase'', JStr ''Succeeded'')]),
         (''wf-1-b'', JObj [(''displayName'', JStr ''step-b''), (''type'', JStr ''Pod''),
                           (''phase'', JStr ''Failed'')])]"
  let ?status = "[(''phase'', JStr ''Succeeded''), (''nodes'', JObj ?items)]"
  let ?w = "[(''status'', JObj ?status)]"
  let ?g = "\<lambda>n :: string. Inr ?w :: api_failure + dict"
  let ?r = "\<lambda>pod :: json. Inr ([''line''], None) :: api_failure + pod_stream"
  have "?g ''wf-1'' = Inr ?w" "py_get ?w ''status'' (JObj []) = JObj ?status"
       "py_get ?status ''nodes'' (JObj []) = JObj ?items"
       "\<forall>item \<in> set ?items. \<exists>d. snd item = JObj d"
    by (simp_all add: py_get_def)
  from unfiltered_stream_selects_active_pods
         [where get_object = ?g and repr = "\<lambda>v. []" and read_pod_stream = ?r, OF this]
  show ?thesis
    by (simp add: is_pod_def is_terminal_def py_get_def)
qed

text \<open>
  Claim C8 fails on the branch taken with a step filter: it selects by \<open>displayName\<close> or
  \<open>name\<close> alone, without the test \<open>type == "Pod"\<close> of the other branch.  In a workflow
  whose step \<open>apply-application\<close> has a retry strategy, the node of that display name is
  the \<open>Retry\<close> node; it is selected, and the pod that ran the step is not.
\<close>

theorem step_filter_selects_non_pod:
  "log_targets (Some ''apply-application'')
     [(''wf-1-10'', JObj [(''name'', JStr ''wf-1.apply-application''),
                         (''displayName'', JStr ''apply-application''), (''type'', JStr ''Retry'')]),
      (''wf-1-11'', JObj [(''name'', JStr ''wf-1.apply-application(0)''),
                         (''displayName'', JStr ''apply-application(0)''), (''type'', JStr ''Pod'')])] =
     Inr [(''wf-1-10'', [(''name'', JStr ''wf-1.apply-application''),
                        (''displayName'', JStr ''apply-application''), (''type'', JStr ''Retry'')])] \<and>
   stream_targets (Some ''apply-application'')
     [(''wf-1-10'', JObj [(''name'', JStr ''wf-1.apply-application''),
                         (''displayName'', JStr ''apply-application''), (''type'', JStr ''Retry'')]),
      (''wf-1-11'', JObj [(''name'', JStr ''wf-1.apply-application(0)''),
                         (''displayName'', JStr ''apply-application(0)''), (''type'', JStr ''Pod'')])] =
     Inr [(''wf-1-10'', [(''name'', JStr ''wf-1.apply-application''),
                        (''displayName'', JStr ''apply-application''), (''type'', JStr ''Retry'')])] \<and>
   \<not> is_pod [(''name'', JStr ''wf-1.apply-application''),
              (''displayName'', JStr ''apply-application''), (''type'', JStr ''Retry'')]"
  by (simp add: log_targets_def stream_targets_def matches_step_def is_pod_def)

section \<open>Properties of the deletion loops\<close>







section \<open>Properties of the watch loop\<close>












text \<open>
  A status without a start time is not displayed: \<open>format_workflow_status\<close> raises in the
  first iteration, and the loop is left with its \<open>AttributeError\<close>.
\<close>

lemma watch_raises_without_start_time:
  "watch
     \<lparr> repr_of = (\<lambda>v. []), strftime = (\<lambda>d :: nat. ''2024-05-01 10:00:00''),
       seconds_between = (\<lambda>a b. Inr 0), seconds_since = (\<lambda>d. 5),
       add_row_error = (\<lambda>a b c. None), print_table_error = (\<lambda>rows. None),
         print_error = (\<lambda>output. None) \<rparr>
     (\<lambda>s. None) ''argo''
     (\<lambda>i n. Inr [(''status'', JObj [(''phase'', JStr ''Pending'')])])
     (\<lambda>i. False) (\<lambda>i. False) ''wf-1'' =
   Some ([], Raised (AttributeError
     ([CHR 0x27] @ ''NoneType'' @ [CHR 0x27] @ '' object has no attribute '' @
      [CHR 0x27] @ ''strftime'' @ [CHR 0x27])))"
  unfolding watch_def
  by (subst watch_loop.simps)
     (simp add: get_workflow_status_def decode_workflow_def py_get_def parse_timestamp_def
        format_workflow_status_def get_phase_color_def get_phase_icon_def unhashable_def
        attribute_error_def)


section \<open>Properties of the generated templates\<close>

text \<open>
  Which scripts apply non-idempotently, by evaluation of the script sources: the two
  \<open>apply-*\<close> steps run \<open>kubectl apply -f\<close> on the manifest they wrote; the other scripts
  either do not run \<open>kubectl apply\<close> or feed it from a client-side dry run.
\<close>

lemma application_validate_inputs_source_idempotent: "\<not> non_idempotent_apply application_validate_inputs_source"
  unfolding non_idempotent_apply_def application_validate_inputs_source_def
  by (simp add: sublist_Cons_right)

lemma application_create_namespace_source_idempotent: "\<not> non_idempotent_apply application_create_namespace_source"
  unfolding non_idempotent_apply_def application_create_namespace_source_def
  by (simp add: sublist_Cons_right)

lemma application_generate_manifest_source_idempotent: "\<not> non_idempotent_apply application_generate_manifest_source"
  unfolding non_idempotent_apply_def application_generate_manifest_source_def
  by (simp add: sublist_Cons_right)

lemma application_apply_application_source_applies: "non_idempotent_apply application_apply_application_source"
  unfolding non_idempotent_apply_def application_apply_application_source_def
  by (simp add: sublist_Cons_right)

lemma application_verify_creation_source_idempotent: "\<not> non_idempotent_apply application_verify_creation_source"
  unfolding non_idempotent_apply_def application_verify_creation_source_def
  by (simp add: sublist_Cons_right)

lemma applicationset_validate_inputs_source_idempotent: "\<not> non_idempotent_apply applicationset_validate_inputs_source"
  unfolding non_idempotent_apply_def applicationset_validate_inputs_source_def
  by (simp add: sublist_Cons_right)

lemma applicationset_validate_environments_source_idempotent: "\<not> non_idempotent_apply applicationset_validate_environments_source"
  unfolding non_idempotent_apply_def applicationset_validate_environments_source_def
  by (simp add: sublist_Cons_right)

lemma applicationset_generate_manifest_source_idempotent: "\<not> non_idempotent_apply applicationset_generate_manifest_source"
  unfolding non_idempotent_apply_def applicationset_generate_manifest_source_def
  by (simp add: sublist_Cons_right)

lemma applicationset_apply_applicationset_source_applies: "non_idempotent_apply applicationset_apply_applicationset_source"
  unfolding non_idempotent_apply_def applicationset_apply_applicationset_source_def
  by (simp add: sublist_Cons_right)

lemma infrastructure_create_namespace_source_idempotent: "\<not> non_idempotent_apply infrastructure_create_namespace_source"
  unfolding non_idempotent_apply_def infrastructure_create_namespace_source_def
  by (simp add: sublist_Cons_right)

lemma infrastructure_create_secrets_source_idempotent: "\<not> non_idempotent_apply infrastructure_create_secrets_source"
  unfolding non_idempotent_apply_def infrastructure_create_secrets_source_def
  by (simp add: sublist_Cons_right)

lemma infrastructure_create_configmaps_source_idempotent: "\<not> non_idempotent_apply infrastructure_create_configmaps_source"
  unfolding non_idempotent_apply_def infrastructure_create_configmaps_source_def
  by (simp add: sublist_Cons_right)

lemma infrastructure_execute_custom_scripts_source_idempotent: "\<not> non_idempotent_apply infrastructure_execute_custom_scripts_source"
  unfolding non_idempotent_apply_def infrastructure_execute_custom_scripts_source_def
  by (simp add: sublist_Cons_right)


lemma application_policies:
  "step_policies (application_template self_namespace) =
     [(''validate-inputs'', Some 2, False, application_validate_inputs_source),
      (''create-namespace'', Some 2, False, application_create_namespace_source),
      (''generate-manifest'', Some 2, False, application_generate_manifest_source),
      (''apply-application'', Some 3, True, application_apply_application_source),
      (''verify-creation'', Some 2, False, application_verify_creation_source)]"
  by (simp add: step_policies_def application_template_def step_templates_def templates_of_def
        field_def is_step_template_def template_name_def retry_limit_def has_capped_backoff_def
        script_source_def)

lemma applicationset_policies:
  "step_policies (applicationset_template self_namespace) =
     [(''validate-inputs'', Some 2, False, applicationset_validate_inputs_source),
      (''validate-environments'', Some 2, False, applicationset_validate_environments_source),
      (''generate-manifest'', Some 2, False, applicationset_generate_manifest_source),
      (''apply-applicationset'', Some 3, True, applicationset_apply_applicationset_source)]"
  by (simp add: step_policies_def applicationset_template_def step_templates_def templates_of_def
        field_def is_step_template_def template_name_def retry_limit_def has_capped_backoff_def
        script_source_def)

lemma infrastructure_policies:
  "step_policies (infrastructure_template self_namespace) =
     [(''create-namespace'', Some 2, False, infrastructure_create_namespace_source),
      (''create-secrets'', Some 2, False, infrastructure_create_secrets_source),
      (''create-configmaps'', Some 2, False, infrastructure_create_configmaps_source),
      (''execute-custom-scripts'', Some 2, False, infrastructure_execute_custom_scripts_source)]"
  by (simp add: step_policies_def infrastructure_template_def step_templates_def templates_of_def
        field_def is_step_template_def template_name_def retry_limit_def has_capped_backoff_def
        script_source_def)

lemma policy_of_step:
  "t \<in> set (step_templates doc) \<Longrightarrow>
     (template_name t, retry_limit t, has_capped_backoff t, script_source t) \<in> set (step_policies doc)"
  by (auto simp: step_policies_def)

text \<open>
  Claim C3.  In the template dictionary that \<open>generate\<close> serialises, for each of the
  three kinds, every step template (every template with a script) has a
  \<open>retryStrategy\<close> whose \<open>limit\<close> is a decimal numeral, and every step template whose script
  performs a non-idempotent \<open>kubectl apply\<close> has a \<open>backoff\<close> with \<open>duration\<close>, \<open>factor\<close>
  and \<open>maxDuration\<close>.
\<close>

theorem steps_carry_bounded_retry:
  "\<forall>t \<in> set (step_templates (template_dict kind self_namespace)).
     (\<exists>n. retry_limit t = Some n) \<and>
     (non_idempotent_apply (script_source t) \<longrightarrow> has_capped_backoff t)"
proof
  fix t assume t: "t \<in> set (step_templates (template_dict kind self_namespace))"
  let ?p = "(template_name t, retry_limit t, has_capped_backoff t, script_source t)"
  from t have p: "?p \<in> set (step_policies (template_dict kind self_namespace))"
    by (rule policy_of_step)
  show "(\<exists>n. retry_limit t = Some n) \<and>
        (non_idempotent_apply (script_source t) \<longrightarrow> has_capped_backoff t)"
  proof (cases kind)
    case Application
    with p have "?p \<in> set (step_policies (application_template self_namespace))"
      by (simp add: template_dict_def)
    then show ?thesis
      unfolding application_policies
      using application_validate_inputs_source_idempotent
        application_create_namespace_source_idempotent
        application_generate_manifest_source_idempotent
        application_verify_creation_source_idempotent
      by auto
  next
    case ApplicationSet
    with p have "?p \<in> set (step_policies (applicationset_template self_namespace))"
      by (simp add: template_dict_def)
    then show ?thesis
      unfolding applicationset_policies
      using applicationset_validate_inputs_source_idempotent
        applicationset_validate_environments_source_idempotent
        applicationset_generate_manifest_source_idempotent
      by auto
  next
    case Infrastructure
    with p have "?p \<in> set (step_policies (infrastructure_template self_namespace))"
      by (simp add: template_dict_def)
    then show ?thesis
      unfolding infrastructure_policies
      using infrastructure_create_namespace_source_idempotent
        infrastructure_create_secrets_source_idempotent
        infrastructure_create_configmaps_source_idempotent
        infrastructure_execute_custom_scripts_source_idempotent
      by auto
  qed
qed


text \<open>
  The step \<open>apply-application\<close> of the application template: limit 3, a non-idempotent
  apply, and the backoff.
\<close>

theorem steps_carry_bounded_retry_witness:
  "\<exists>t \<in> set (step_templates (template_dict Application ''argo'')).
     template_name t = ''apply-application'' \<and> retry_limit t = Some 3 \<and>
     non_idempotent_apply (script_source t) \<and> has_capped_backoff t"
proof -
  have "(''apply-application'', Some 3, True, application_apply_application_source)
          \<in> set (step_policies (template_dict Application ''argo''))"
    by (simp add: template_dict_def application_policies)
  then obtain t where t: "t \<in> set (step_templates (template_dict Application ''argo''))"
    and name: "template_name t = ''apply-application''"
    and limit: "retry_limit t = Some 3"
    and source: "script_source t = application_apply_application_source"
    by (auto simp: step_policies_def)
  from source have applies: "non_idempotent_apply (script_source t)"
    by (simp add: application_apply_application_source_applies)
  from steps_carry_bounded_retry [of Application "''argo''"] t applies
  have "has_capped_backoff t" by blast
  with t name limit applies show ?thesis by blast
qed

end
